theory Spec2Isabelle
  imports Complex_Main "HOL-Library.AList" "HOL-Library.Log_Nat"
begin

section \<open>Data model\<close>

text \<open>
  The kitchen game keeps its state in JavaScript objects and \<^verbatim>\<open>Map\<close>s. A \<^verbatim>\<open>Map\<close> is
  modelled as an association list in insertion order: \<^verbatim>\<open>get\<close> is \<^const>\<open>map_of\<close>,
  \<^verbatim>\<open>set\<close> is \<^const>\<open>AList.update\<close> (an existing key keeps its position, a new key goes
  to the end), \<^verbatim>\<open>delete\<close> is \<^const>\<open>AList.delete\<close>, \<^verbatim>\<open>values()\<close> is \<open>map snd\<close> and
  \<^verbatim>\<open>size\<close> is \<^const>\<open>length\<close>. Mutating an object that lives in a \<^verbatim>\<open>Map\<close> is
  modelled as storing the changed object under its key again. Identifiers are strings.
  Counters and clock readings are integers. Every other number is a JavaScript double,
  modelled as the rational it denotes; each multiplication, division, addition and
  subtraction of the source on such numbers is followed by the rounding \<open>toDouble\<close> of
  section \<open>JavaScript numbers\<close>.
  \<^verbatim>\<open>Date.now()\<close> and \<^verbatim>\<open>Math.random()\<close> are parameters of the operations that read them.
\<close>

subsection \<open>Recipes (dish-system.js)\<close>

text \<open>A preparation step or a final assembly step, as written in \<^verbatim>\<open>initializeDishes\<close>;
  \<^verbatim>\<open>station\<close> and \<^verbatim>\<open>time\<close> are absent on most steps.\<close>

record Step =
  step_action :: string
  step_description :: string
  step_station :: "string option"
  step_time :: "nat option"
  step_key :: string

text \<open>One entry of a dish's \<^verbatim>\<open>ingredients\<close> array. Every entry of the catalog carries a
  \<^verbatim>\<open>prepSteps\<close> array (possibly empty), and every dish a \<^verbatim>\<open>finalSteps\<close> array, so both
  are lists here, and the source's tests for a missing \<^verbatim>\<open>prepSteps\<close> or \<^verbatim>\<open>finalSteps\<close>
  (\<^verbatim>\<open>!ingredient.prepSteps\<close>, \<^verbatim>\<open>dish.finalSteps &&\<close>) have one outcome only.\<close>

record IngredientSpec =
  ing_id :: string
  ing_required :: bool
  prepSteps :: "Step list"

text \<open>The value stored in \<^verbatim>\<open>dish.ingredientStates\<close> by \<^verbatim>\<open>addIngredientToDish\<close>.\<close>

record IngredientState =
  added :: bool
  prepStepsCompleted :: nat
  isReady :: bool

text \<open>The \<^verbatim>\<open>dishData\<close> object literal handed to \<^verbatim>\<open>addDish\<close>.\<close>

record DishData =
  data_name :: string
  data_station :: string
  data_baseColor :: string
  data_ingredients :: "IngredientSpec list"
  data_finalSteps :: "Step list"
  data_difficulty :: nat
  data_prepTime :: nat

text \<open>The object \<^verbatim>\<open>addDish\<close> stores: the recipe data together with the mutable cooking
  state of that dish.\<close>

record Dish =
  dish_id :: string
  dish_name :: string
  dish_station :: string
  baseColor :: string
  ingredients :: "IngredientSpec list"
  finalSteps :: "Step list"
  difficulty :: nat
  prepTime :: nat
  currentIngredients :: "string set"
  ingredientStates :: "(string \<times> IngredientState) list"
  finalStepsProgress :: nat
  isComplete :: bool

text \<open>Ingredient and tool definitions have the same shape.\<close>

record ItemDef =
  def_id :: string
  def_name :: string
  def_type :: string
  def_color :: string
  def_key :: string
  def_className :: string

record StationConfig =
  cfg_name :: string
  cfg_allowedActions :: "string list"
  cfg_color :: string
  cfg_cookingSlots :: "nat option"

record DishSystem =
  dishes :: "(string \<times> Dish) list"
  ds_ingredients :: "(string \<times> ItemDef) list"
  tools :: "(string \<times> ItemDef) list"
  cookingStations :: "(string \<times> StationConfig) list"

subsection \<open>Cooking stations (cooking-stations.js)\<close>

record CookingItem =
  item_name :: string
  item_action :: string
  item_ingredient :: string
  cookingTime :: nat
  startTime :: int
  item_isReady :: bool

record CookingStation =
  station_id :: string
  station_name :: string
  allowedActions :: "string list"
  cookingSlots :: nat
  currentItems :: "(nat \<times> CookingItem) list"
  station_isActive :: bool

text \<open>\<^verbatim>\<open>activeStation\<close> is a reference to one of the station objects of \<^verbatim>\<open>stations\<close>;
  it is modelled by that station's key.\<close>

record CookingStationManager =
  stations :: "(string \<times> CookingStation) list"
  activeStation :: "string option"
  currentDish :: "string option"

subsection \<open>Orders (order system)\<close>

datatype Rating = Perfect | Good | Average | Bad | Failed

text \<open>\<^verbatim>\<open>timeLimit\<close> is in milliseconds and need not be whole, \<^verbatim>\<open>createdAt\<close> is a
  \<^verbatim>\<open>Date.now()\<close> reading.\<close>

record Order =
  order_id :: string
  order_dishId :: string
  dishName :: string
  timeLimit :: rat
  createdAt :: int
  order_isComplete :: bool
  isActive :: bool
  rating :: "Rating option"

text \<open>\<^verbatim>\<open>feedbackShown\<close> records the calls of \<^verbatim>\<open>showOrderFeedback\<close> (rating and score put
  on screen), most recent first; the rest of the DOM is not modelled.\<close>

record OrderSystem =
  activeOrders :: "(string \<times> Order) list"
  completedOrders :: "Order list"
  maxActiveOrders :: nat
  totalScore :: int
  ordersCompleted :: nat
  perfectOrders :: nat
  feedbackShown :: "(Rating option \<times> int) list"

record Stats =
  stats_totalScore :: int
  stats_ordersCompleted :: nat
  stats_perfectOrders :: nat
  stats_activeOrders :: nat
  averageScore :: int
  perfectRate :: int

subsection \<open>The game controller (game.js)\<close>

record Game =
  dishSystem :: DishSystem
  cookingStationManager :: CookingStationManager
  orderSystem :: OrderSystem

datatype js_error = TypeError

section \<open>DishSystem\<close>

definition mkStep :: "string \<Rightarrow> string \<Rightarrow> string \<Rightarrow> Step" where
  "mkStep a d k =
     \<lparr>step_action = a, step_description = d, step_station = None, step_time = None,
      step_key = k\<rparr>"

definition mkCookStep :: "string \<Rightarrow> string \<Rightarrow> string \<Rightarrow> nat \<Rightarrow> string \<Rightarrow> Step" where
  "mkCookStep a d s t k =
     \<lparr>step_action = a, step_description = d, step_station = Some s, step_time = Some t,
      step_key = k\<rparr>"

definition mkIng :: "string \<Rightarrow> bool \<Rightarrow> Step list \<Rightarrow> IngredientSpec" where
  "mkIng i r ps = \<lparr>ing_id = i, ing_required = r, prepSteps = ps\<rparr>"

definition addIngredient ::
  "string \<Rightarrow> string \<Rightarrow> string \<Rightarrow> string \<Rightarrow> string \<Rightarrow> DishSystem \<Rightarrow> DishSystem" where
  "addIngredient i n t c k ds =
     ds\<lparr>ds_ingredients := AList.update i
        \<lparr>def_id = i, def_name = n, def_type = t, def_color = c, def_key = k,
         def_className = ''ingredient-'' @ t\<rparr> (ds_ingredients ds)\<rparr>"

definition addTool ::
  "string \<Rightarrow> string \<Rightarrow> string \<Rightarrow> string \<Rightarrow> string \<Rightarrow> DishSystem \<Rightarrow> DishSystem" where
  "addTool i n t c k ds =
     ds\<lparr>tools := AList.update i
        \<lparr>def_id = i, def_name = n, def_type = t, def_color = c, def_key = k,
         def_className = ''tool-'' @ t\<rparr> (tools ds)\<rparr>"

text \<open>\<^verbatim>\<open>addDish(id, dishData)\<close> stores \<^verbatim>\<open>{id, ...dishData}\<close> extended by a fresh
  cooking state.\<close>

definition freshDish :: "string \<Rightarrow> DishData \<Rightarrow> Dish" where
  "freshDish i dishData =
     \<lparr>dish_id = i, dish_name = data_name dishData, dish_station = data_station dishData,
      baseColor = data_baseColor dishData, ingredients = data_ingredients dishData,
      finalSteps = data_finalSteps dishData, difficulty = data_difficulty dishData,
      prepTime = data_prepTime dishData,
      currentIngredients = {}, ingredientStates = [], finalStepsProgress = 0,
      isComplete = False\<rparr>"

definition addDish :: "string \<Rightarrow> DishData \<Rightarrow> DishSystem \<Rightarrow> DishSystem" where
  "addDish i dishData ds =
     ds\<lparr>dishes := AList.update i (freshDish i dishData) (dishes ds)\<rparr>"

definition getDish :: "DishSystem \<Rightarrow> string \<Rightarrow> Dish option" where
  "getDish ds i = map_of (dishes ds) i"

definition getAllDishes :: "DishSystem \<Rightarrow> Dish list" where
  "getAllDishes ds = map snd (dishes ds)"

definition getIngredient :: "DishSystem \<Rightarrow> string \<Rightarrow> ItemDef option" where
  "getIngredient ds i = map_of (ds_ingredients ds) i"

definition getTool :: "DishSystem \<Rightarrow> string \<Rightarrow> ItemDef option" where
  "getTool ds i = map_of (tools ds) i"

definition getCookingStation :: "DishSystem \<Rightarrow> string \<Rightarrow> StationConfig option" where
  "getCookingStation ds i = map_of (cookingStations ds) i"

text \<open>Writing a mutated dish object back under its key.\<close>

definition putDish :: "DishSystem \<Rightarrow> string \<Rightarrow> Dish \<Rightarrow> DishSystem" where
  "putDish ds i d = ds\<lparr>dishes := AList.update i d (dishes ds)\<rparr>"

text \<open>\<^verbatim>\<open>addIngredientToDish(dishId, ingredientId)\<close>: unknown dish, ingredient not in the
  recipe, or ingredient already added give \<^verbatim>\<open>false\<close>; otherwise the ingredient is added
  with zero completed steps, ready exactly when the recipe gives it no prep steps.\<close>

definition addIngredientToDish :: "DishSystem \<Rightarrow> string \<Rightarrow> string \<Rightarrow> bool \<times> DishSystem" where
  "addIngredientToDish ds dishId ingredientId =
     (case getDish ds dishId of
        None \<Rightarrow> (False, ds)
      | Some dish \<Rightarrow>
          (case find (\<lambda>ing. ing_id ing = ingredientId) (ingredients dish) of
             None \<Rightarrow> (False, ds)
           | Some ingredient \<Rightarrow>
               if ingredientId \<in> currentIngredients dish then (False, ds)
               else (True, putDish ds dishId
                 (dish\<lparr>currentIngredients := insert ingredientId (currentIngredients dish),
                       ingredientStates := AList.update ingredientId
                         \<lparr>added = True, prepStepsCompleted = 0,
                          isReady = (length (prepSteps ingredient) = 0)\<rparr>
                         (ingredientStates dish)\<rparr>))))"

text \<open>The first loop of \<^verbatim>\<open>useToolOnDish\<close>, over the recipe's ingredients in order. The
  result is the changed dish when some ingredient took the tool (the \<^verbatim>\<open>break\<close>), and
  \<open>None\<close> when the loop ran to its end with \<^verbatim>\<open>toolUsed\<close> still false. Reading
  \<^verbatim>\<open>prepSteps[n]\<close> beyond the array gives \<^verbatim>\<open>undefined\<close>, which fails the test.\<close>

fun useToolOnIngredients :: "IngredientSpec list \<Rightarrow> Dish \<Rightarrow> string \<Rightarrow> Dish option" where
  "useToolOnIngredients [] dish toolId = None"
| "useToolOnIngredients (ingredient # rest) dish toolId =
     (if ing_id ingredient \<notin> currentIngredients dish
      then useToolOnIngredients rest dish toolId
      else case map_of (ingredientStates dish) (ing_id ingredient) of
        None \<Rightarrow> useToolOnIngredients rest dish toolId
      | Some ingredientState \<Rightarrow>
          if isReady ingredientState then useToolOnIngredients rest dish toolId
          else if prepStepsCompleted ingredientState < length (prepSteps ingredient)
                  \<and> step_action (prepSteps ingredient ! prepStepsCompleted ingredientState)
                      = toolId
          then
            (let n = prepStepsCompleted ingredientState + 1
             in Some (dish\<lparr>ingredientStates := AList.update (ing_id ingredient)
                  (ingredientState\<lparr>prepStepsCompleted := n,
                     isReady := (if length (prepSteps ingredient) \<le> n then True
                                 else isReady ingredientState)\<rparr>)
                  (ingredientStates dish)\<rparr>))
          else useToolOnIngredients rest dish toolId)"

text \<open>\<^verbatim>\<open>useToolOnDish(dishId, toolId)\<close>: the ingredient loop, then the final-assembly step
  if no ingredient took the tool.\<close>

definition useToolOnDish :: "DishSystem \<Rightarrow> string \<Rightarrow> string \<Rightarrow> bool \<times> DishSystem" where
  "useToolOnDish ds dishId toolId =
     (case getDish ds dishId of
        None \<Rightarrow> (False, ds)
      | Some dish \<Rightarrow>
          (case useToolOnIngredients (ingredients dish) dish toolId of
             Some dish' \<Rightarrow> (True, putDish ds dishId dish')
           | None \<Rightarrow>
               if finalStepsProgress dish < length (finalSteps dish)
                  \<and> step_action (finalSteps dish ! finalStepsProgress dish) = toolId
               then
                 (let n = finalStepsProgress dish + 1
                  in (True, putDish ds dishId
                       (dish\<lparr>finalStepsProgress := n,
                             isComplete := (if length (finalSteps dish) \<le> n then True
                                            else isComplete dish)\<rparr>)))
               else (False, ds)))"

text \<open>The loop of \<^verbatim>\<open>isDishValid\<close> over the required ingredients.\<close>

fun requiredReady :: "IngredientSpec list \<Rightarrow> Dish \<Rightarrow> bool" where
  "requiredReady [] dish = True"
| "requiredReady (ingredient # rest) dish =
     (if ing_id ingredient \<notin> currentIngredients dish then False
      else case map_of (ingredientStates dish) (ing_id ingredient) of
        None \<Rightarrow> False
      | Some ingredientState \<Rightarrow>
          if \<not> isReady ingredientState then False else requiredReady rest dish)"

definition isDishValid :: "DishSystem \<Rightarrow> string \<Rightarrow> bool" where
  "isDishValid ds dishId =
     (case getDish ds dishId of
        None \<Rightarrow> False
      | Some dish \<Rightarrow> requiredReady (filter ing_required (ingredients dish)) dish)"

definition resetDish :: "DishSystem \<Rightarrow> string \<Rightarrow> bool \<times> DishSystem" where
  "resetDish ds dishId =
     (case getDish ds dishId of
        None \<Rightarrow> (False, ds)
      | Some dish \<Rightarrow>
          (True, putDish ds dishId
             (dish\<lparr>currentIngredients := {}, ingredientStates := [],
                   finalStepsProgress := 0, isComplete := False\<rparr>)))"


subsection \<open>The catalog built by the constructor\<close>

definition initializeIngredients :: "DishSystem \<Rightarrow> DishSystem" where
  "initializeIngredients ds =
     fold (\<lambda>(i, n, t, c, k). addIngredient i n t c k)
       [(''beef_patty'', ''Beef Patty'', ''meat'', ''#ffcccb'', ''b''),
        (''chicken_breast'', ''Chicken Breast'', ''meat'', ''#ffcccb'', ''c''),
        (''bacon'', ''Bacon'', ''meat'', ''#ffcccb'', ''n''),
        (''lettuce'', ''Lettuce'', ''vegetable'', ''#90ee90'', ''l''),
        (''tomato'', ''Tomato'', ''vegetable'', ''#90ee90'', ''t''),
        (''onion'', ''Onion'', ''vegetable'', ''#90ee90'', ''o''),
        (''pickles'', ''Pickles'', ''vegetable'', ''#90ee90'', ''p''),
        (''mushrooms'', ''Mushrooms'', ''vegetable'', ''#90ee90'', ''m''),
        (''bell_pepper'', ''Bell Pepper'', ''vegetable'', ''#90ee90'', ''e''),
        (''cheese'', ''Cheese'', ''dairy'', ''#fffacd'', ''h''),
        (''mozzarella'', ''Mozzarella'', ''dairy'', ''#fffacd'', ''z''),
        (''butter'', ''Butter'', ''dairy'', ''#fffacd'', ''u''),
        (''burger_bun'', ''Burger Bun'', ''grain'', ''#daa520'', ''j''),
        (''pizza_dough'', ''Pizza Dough'', ''grain'', ''#daa520'', ''d''),
        (''pasta'', ''Pasta'', ''grain'', ''#daa520'', ''a''),
        (''ketchup'', ''Ketchup'', ''sauce'', ''#ff6347'', ''k''),
        (''mustard'', ''Mustard'', ''sauce'', ''#ff6347'', ''y''),
        (''mayo'', ''Mayo'', ''sauce'', ''#ff6347'', ''w''),
        (''tomato_sauce'', ''Tomato Sauce'', ''sauce'', ''#ff6347'', ''s''),
        (''salt'', ''Salt'', ''seasoning'', ''#dda0dd'', ''i''),
        (''pepper'', ''Pepper'', ''seasoning'', ''#dda0dd'', ''r''),
        (''oregano'', ''Oregano'', ''seasoning'', ''#dda0dd'', ''g'')] ds"

definition initializeTools :: "DishSystem \<Rightarrow> DishSystem" where
  "initializeTools ds =
     fold (\<lambda>(i, n, t, c, k). addTool i n t c k)
       [(''chop'', ''Chop'', ''cut'', ''#c0c0c0'', ''x''),
        (''slice'', ''Slice'', ''cut'', ''#c0c0c0'', ''v''),
        (''grill'', ''Grill'', ''cook'', ''#ffa500'', ''q''),
        (''fry'', ''Deep Fry'', ''cook'', ''#ffa500'', ''f''),
        (''boil'', ''Boil'', ''cook'', ''#ffa500'', '',''),
        (''bake'', ''Bake'', ''cook'', ''#ffa500'', ''.''),
        (''mix'', ''Mix'', ''mix'', ''#87ceeb'', '';''),
        (''toss'', ''Toss'', ''mix'', ''#87ceeb'', [CHR 0x27]),
        (''assemble'', ''Assemble'', ''mix'', ''#87ceeb'', ''[''),
        (''plate'', ''Plate'', ''serve'', ''#98fb98'', ''space'')] ds"

definition prepStationConfig :: StationConfig where
  "prepStationConfig =
     \<lparr>cfg_name = ''Prep Station'',
      cfg_allowedActions = [''chop'', ''slice'', ''mix'', ''toss'', ''assemble'', ''plate''],
      cfg_color = ''#28a745'', cfg_cookingSlots = None\<rparr>"

definition grillStationConfig :: StationConfig where
  "grillStationConfig =
     \<lparr>cfg_name = ''Grill Station'', cfg_allowedActions = [''grill''],
      cfg_color = ''#fd7e14'', cfg_cookingSlots = Some 3\<rparr>"

definition fryerStationConfig :: StationConfig where
  "fryerStationConfig =
     \<lparr>cfg_name = ''Deep Fryer'', cfg_allowedActions = [''fry''],
      cfg_color = ''#ffc107'', cfg_cookingSlots = Some 2\<rparr>"

definition stoveStationConfig :: StationConfig where
  "stoveStationConfig =
     \<lparr>cfg_name = ''Stove Station'', cfg_allowedActions = [''boil'', ''bake''],
      cfg_color = ''#6f42c1'', cfg_cookingSlots = Some 4\<rparr>"

definition initializeCookingStations :: "DishSystem \<Rightarrow> DishSystem" where
  "initializeCookingStations ds =
     ds\<lparr>cookingStations :=
       AList.update ''stove'' stoveStationConfig
         (AList.update ''fryer'' fryerStationConfig
            (AList.update ''grill'' grillStationConfig
               (AList.update ''prep'' prepStationConfig (cookingStations ds))))\<rparr>"

definition plateStep :: Step where
  "plateStep = mkStep ''plate'' ''Plate and serve'' ''space''"

definition classicBurgerData :: DishData where
  "classicBurgerData =
     \<lparr>data_name = ''Classic Burger'', data_station = ''prep'', data_baseColor = ''#ffb3ba'',
      data_ingredients =
        [mkIng ''burger_bun'' True [mkStep ''slice'' ''Slice bun in half'' ''v''],
         mkIng ''beef_patty'' True
           [mkCookStep ''grill'' ''Grill patty'' ''grill'' 3000 ''q''],
         mkIng ''lettuce'' False [mkStep ''chop'' ''Chop lettuce'' ''x''],
         mkIng ''tomato'' False [mkStep ''slice'' ''Slice tomato'' ''v''],
         mkIng ''cheese'' False [],
         mkIng ''pickles'' False [],
         mkIng ''ketchup'' False [],
         mkIng ''mustard'' False []],
      data_finalSteps = [mkStep ''assemble'' ''Assemble burger'' ''['', plateStep],
      data_difficulty = 2, data_prepTime = 45\<rparr>"

definition margheritaPizzaData :: DishData where
  "margheritaPizzaData =
     \<lparr>data_name = ''Margherita Pizza'', data_station = ''prep'', data_baseColor = ''#ffdfba'',
      data_ingredients =
        [mkIng ''pizza_dough'' True [],
         mkIng ''tomato_sauce'' True [mkStep ''mix'' ''Mix sauce'' '';''],
         mkIng ''mozzarella'' True [],
         mkIng ''oregano'' False []],
      data_finalSteps = [mkCookStep ''bake'' ''Bake pizza'' ''stove'' 8000 ''.'', plateStep],
      data_difficulty = 3, data_prepTime = 60\<rparr>"

definition friedChickenData :: DishData where
  "friedChickenData =
     \<lparr>data_name = ''Fried Chicken'', data_station = ''prep'', data_baseColor = ''#ffffba'',
      data_ingredients =
        [mkIng ''chicken_breast'' True
           [mkCookStep ''fry'' ''Fry chicken'' ''fryer'' 5000 ''f''],
         mkIng ''salt'' True [],
         mkIng ''pepper'' True []],
      data_finalSteps = [plateStep],
      data_difficulty = 2, data_prepTime = 35\<rparr>"

definition caesarSaladData :: DishData where
  "caesarSaladData =
     \<lparr>data_name = ''Caesar Salad'', data_station = ''prep'', data_baseColor = ''#baffc9'',
      data_ingredients =
        [mkIng ''lettuce'' True [mkStep ''chop'' ''Chop lettuce'' ''x''],
         mkIng ''chicken_breast'' True
           [mkCookStep ''grill'' ''Grill chicken'' ''grill'' 4000 ''q'',
            mkStep ''slice'' ''Slice chicken'' ''v''],
         mkIng ''cheese'' False [],
         mkIng ''mayo'' False []],
      data_finalSteps = [mkStep ''toss'' ''Toss salad'' [CHR 0x27], plateStep],
      data_difficulty = 3, data_prepTime = 50\<rparr>"

definition pastaMarinaraData :: DishData where
  "pastaMarinaraData =
     \<lparr>data_name = ''Pasta Marinara'', data_station = ''prep'', data_baseColor = ''#ffb3ff'',
      data_ingredients =
        [mkIng ''pasta'' True
           [mkCookStep ''boil'' ''Boil pasta'' ''stove'' 6000 '',''],
         mkIng ''tomato_sauce'' True [],
         mkIng ''oregano'' False [],
         mkIng ''cheese'' False []],
      data_finalSteps = [mkStep ''mix'' ''Mix pasta with sauce'' '';'', plateStep],
      data_difficulty = 2, data_prepTime = 40\<rparr>"

definition initializeDishes :: "DishSystem \<Rightarrow> DishSystem" where
  "initializeDishes ds =
     addDish ''pasta_marinara'' pastaMarinaraData
       (addDish ''caesar_salad'' caesarSaladData
          (addDish ''fried_chicken'' friedChickenData
             (addDish ''margherita_pizza'' margheritaPizzaData
                (addDish ''classic_burger'' classicBurgerData ds))))"

text \<open>\<^verbatim>\<open>new DishSystem()\<close>.\<close>

definition newDishSystem :: DishSystem where
  "newDishSystem =
     initializeDishes (initializeCookingStations (initializeTools (initializeIngredients
       \<lparr>dishes = [], ds_ingredients = [], tools = [], cookingStations = []\<rparr>)))"

section \<open>Cooking stations\<close>

text \<open>\<^verbatim>\<open>new CookingStation(id, config)\<close>; \<^verbatim>\<open>config.cookingSlots || 1\<close> turns a missing
  or zero slot count into one.\<close>

definition newCookingStation :: "string \<Rightarrow> StationConfig \<Rightarrow> CookingStation" where
  "newCookingStation i config =
     \<lparr>station_id = i, station_name = cfg_name config,
      allowedActions = cfg_allowedActions config,
      cookingSlots = (case cfg_cookingSlots config of
                        None \<Rightarrow> 1 | Some n \<Rightarrow> if n = 0 then 1 else n),
      currentItems = [], station_isActive = False\<rparr>"

text \<open>\<^verbatim>\<open>addItem(slotIndex, item)\<close>, where \<^verbatim>\<open>item\<close> carries name, action, ingredient and
  cooking time; the start time is the clock reading \<open>now\<close>.\<close>

definition addItem ::
  "CookingStation \<Rightarrow> nat \<Rightarrow> string \<Rightarrow> string \<Rightarrow> string \<Rightarrow> nat \<Rightarrow> int
     \<Rightarrow> bool \<times> CookingStation" where
  "addItem st slotIndex nm act ingr ct now =
     (if cookingSlots st \<le> slotIndex then (False, st)
      else (True, st\<lparr>currentItems := AList.update slotIndex
              \<lparr>item_name = nm, item_action = act, item_ingredient = ingr,
               cookingTime = (if ct = 0 then 3000 else ct), startTime = now,
               item_isReady = False\<rparr> (currentItems st)\<rparr>))"

text \<open>The callback \<^verbatim>\<open>addItem\<close> hands to \<^verbatim>\<open>setTimeout\<close>: whatever item is in the slot
  when the timer fires becomes ready.\<close>

definition cookingTimerFires :: "CookingStation \<Rightarrow> nat \<Rightarrow> CookingStation" where
  "cookingTimerFires st slotIndex =
     (case map_of (currentItems st) slotIndex of
        None \<Rightarrow> st
      | Some cookingItem \<Rightarrow>
          st\<lparr>currentItems := AList.update slotIndex (cookingItem\<lparr>item_isReady := True\<rparr>)
               (currentItems st)\<rparr>)"

definition removeItem :: "CookingStation \<Rightarrow> nat \<Rightarrow> CookingItem option \<times> CookingStation" where
  "removeItem st slotIndex =
     (map_of (currentItems st) slotIndex,
      st\<lparr>currentItems := AList.delete slotIndex (currentItems st)\<rparr>)"

definition hasAvailableSlot :: "CookingStation \<Rightarrow> bool" where
  "hasAvailableSlot st = (length (currentItems st) < cookingSlots st)"

text \<open>\<^verbatim>\<open>getNextAvailableSlot()\<close>: the first index below \<^verbatim>\<open>cookingSlots\<close> that is not a
  key of \<^verbatim>\<open>currentItems\<close>; \<open>None\<close> stands for the source's \<^verbatim>\<open>-1\<close>.\<close>

definition getNextAvailableSlot :: "CookingStation \<Rightarrow> nat option" where
  "getNextAvailableSlot st =
     find (\<lambda>i. map_of (currentItems st) i = None) [0 ..< cookingSlots st]"

definition initializeStations :: "DishSystem \<Rightarrow> CookingStationManager \<Rightarrow> CookingStationManager" where
  "initializeStations ds mgr =
     mgr\<lparr>stations := fold (\<lambda>(stationId, config). AList.update stationId
                              (newCookingStation stationId config))
                        (cookingStations ds) (stations mgr)\<rparr>"

text \<open>\<^verbatim>\<open>new CookingStationManager(dishSystem)\<close>.\<close>

definition newCookingStationManager :: "DishSystem \<Rightarrow> CookingStationManager" where
  "newCookingStationManager ds =
     initializeStations ds \<lparr>stations = [], activeStation = None, currentDish = None\<rparr>"

text \<open>\<^verbatim>\<open>activate()\<close> and \<^verbatim>\<open>deactivate()\<close> of the station stored under a key.\<close>

definition setStationActive :: "CookingStationManager \<Rightarrow> string \<Rightarrow> bool \<Rightarrow> CookingStationManager" where
  "setStationActive mgr stationId b =
     (case map_of (stations mgr) stationId of
        None \<Rightarrow> mgr
      | Some st \<Rightarrow>
          mgr\<lparr>stations := AList.update stationId (st\<lparr>station_isActive := b\<rparr>) (stations mgr)\<rparr>)"

text \<open>\<^verbatim>\<open>setActiveDish(dishId, stationId = null)\<close>. \<^verbatim>\<open>currentDish\<close> is assigned before
  the lookups, so it changes even when the call returns \<^verbatim>\<open>false\<close>. An empty station id
  is falsy and falls back to the dish's own station.\<close>

definition setActiveDish ::
  "DishSystem \<Rightarrow> CookingStationManager \<Rightarrow> string \<Rightarrow> string option
     \<Rightarrow> bool \<times> CookingStationManager" where
  "setActiveDish ds mgr dishId stationId =
     (let mgr1 = mgr\<lparr>currentDish := Some dishId\<rparr>
      in case getDish ds dishId of
           None \<Rightarrow> (False, mgr1)
         | Some dish \<Rightarrow>
             (let targetStationId =
                    (case stationId of
                       None \<Rightarrow> dish_station dish
                     | Some s \<Rightarrow> if s = [] then dish_station dish else s)
              in case map_of (stations mgr1) targetStationId of
                   None \<Rightarrow> (False, mgr1)
                 | Some station \<Rightarrow>
                     (let mgr2 = (case activeStation mgr1 of
                                    None \<Rightarrow> mgr1
                                  | Some prev \<Rightarrow> setStationActive mgr1 prev False);
                          mgr3 = mgr2\<lparr>activeStation := Some targetStationId\<rparr>
                      in (True, setStationActive mgr3 targetStationId True))))"

text \<open>The cooking time \<^verbatim>\<open>handleCookingAction\<close> looks up: the \<^verbatim>\<open>time\<close> of the first prep
  step of the ingredient whose action is the tool, 3000 when there is none or it is 0.\<close>

definition findCookingTime :: "Dish \<Rightarrow> string \<Rightarrow> string \<Rightarrow> nat" where
  "findCookingTime dish act ingr =
     (case find (\<lambda>ing. ing_id ing = ingr) (ingredients dish) of
        None \<Rightarrow> 3000
      | Some ingredientConfig \<Rightarrow>
          (case find (\<lambda>s. step_action s = act) (prepSteps ingredientConfig) of
             None \<Rightarrow> 3000
           | Some step \<Rightarrow>
               (case step_time step of
                  None \<Rightarrow> 3000
                | Some t \<Rightarrow> if t = 0 then 3000 else t)))"

text \<open>\<^verbatim>\<open>handleCookingAction(action, ingredient)\<close>: a job is scheduled only on a station
  with more than one slot; on a one-slot station the call succeeds without scheduling.\<close>

definition handleCookingAction ::
  "DishSystem \<Rightarrow> CookingStationManager \<Rightarrow> string \<Rightarrow> string \<Rightarrow> int
     \<Rightarrow> bool \<times> CookingStationManager" where
  "handleCookingAction ds mgr act ingr now =
     (case activeStation mgr of
        None \<Rightarrow> (False, mgr)
      | Some stationId \<Rightarrow>
       (case map_of (stations mgr) stationId of
          None \<Rightarrow> (False, mgr)
        | Some station \<Rightarrow>
         (case currentDish mgr of
            None \<Rightarrow> (False, mgr)
          | Some dishId \<Rightarrow>
             if dishId = [] then (False, mgr)
             else
              (case getDish ds dishId of
                 None \<Rightarrow> (False, mgr)
               | Some dish \<Rightarrow>
                   if act \<notin> set (allowedActions station) then (False, mgr)
                   else if 1 < cookingSlots station then
                     (case getNextAvailableSlot station of
                        None \<Rightarrow> (False, mgr)
                      | Some slotIndex \<Rightarrow>
                          (let ct = findCookingTime dish act ingr;
                               nm = (case getIngredient ds ingr of
                                       None \<Rightarrow> ingr | Some d \<Rightarrow> def_name d);
                               (ok, station') = addItem station slotIndex nm act ingr ct now
                           in (ok, mgr\<lparr>stations :=
                                 AList.update stationId station' (stations mgr)\<rparr>)))
                   else (True, mgr)))))"

text \<open>\<^verbatim>\<open>removeCookedItem(stationId, slotIndex)\<close>: only a ready item is taken out.\<close>

definition removeCookedItem ::
  "CookingStationManager \<Rightarrow> string \<Rightarrow> nat \<Rightarrow> CookingItem option \<times> CookingStationManager" where
  "removeCookedItem mgr stationId slotIndex =
     (case map_of (stations mgr) stationId of
        None \<Rightarrow> (None, mgr)
      | Some station \<Rightarrow>
          (case map_of (currentItems station) slotIndex of
             None \<Rightarrow> (None, mgr)
           | Some item \<Rightarrow>
               if \<not> item_isReady item then (None, mgr)
               else (let (it, station') = removeItem station slotIndex
                     in (it, mgr\<lparr>stations :=
                           AList.update stationId station' (stations mgr)\<rparr>))))"

definition getReadyItems :: "CookingStationManager \<Rightarrow> (string \<times> nat \<times> CookingItem) list" where
  "getReadyItems mgr =
     concat (map (\<lambda>station.
        map (\<lambda>(slotIndex, item). (station_id station, slotIndex, item))
          (filter (\<lambda>(slotIndex, item). item_isReady item) (currentItems station)))
       (map snd (stations mgr)))"

definition clearCurrentDish :: "CookingStationManager \<Rightarrow> CookingStationManager" where
  "clearCurrentDish mgr =
     (let mgr1 = (case activeStation mgr of
                    None \<Rightarrow> mgr
                  | Some a \<Rightarrow> setStationActive mgr a False)
      in mgr1\<lparr>activeStation := None, currentDish := None\<rparr>)"

text \<open>The timer of a cooking slot, addressed through the manager.\<close>

definition slotTimerFires :: "CookingStationManager \<Rightarrow> string \<Rightarrow> nat \<Rightarrow> CookingStationManager" where
  "slotTimerFires mgr stationId slotIndex =
     (case map_of (stations mgr) stationId of
        None \<Rightarrow> mgr
      | Some station \<Rightarrow>
          mgr\<lparr>stations := AList.update stationId (cookingTimerFires station slotIndex)
                (stations mgr)\<rparr>)"


section \<open>JavaScript numbers\<close>

text \<open>A JavaScript number is an IEEE 754 binary64 value, and every arithmetic operation
  returns the exact result rounded to the nearest such value, ties to the one with an even
  significand. \<open>roundEven\<close> rounds a rational to the nearest integer in that way.\<close>

definition roundEven :: "rat \<Rightarrow> int" where
  "roundEven x =
     (let f = \<lfloor>x\<rfloor>; d = x - of_int f
      in if d < 1 / 2 then f
         else if 1 / 2 < d then f + 1
         else if even f then f else f + 1)"

text \<open>The binary exponent of a non-zero rational:
  \<open>2 powi binExp x \<le> \<bar>x\<bar> < 2 powi (binExp x + 1)\<close>.\<close>

definition binExp :: "rat \<Rightarrow> int" where
  "binExp x =
     (let (p, q) = quotient_of \<bar>x\<bar>;
          k = bitlen p - bitlen q
      in if 2 powi k \<le> \<bar>x\<bar> then k else k - 1)"

text \<open>The double nearest to a rational. A normal double has 53 significant bits, so it is
  a multiple of \<open>2 powi (binExp x - 52)\<close>; below \<open>2 powi (- 1022)\<close> the spacing stays
  \<open>2 powi (- 1074)\<close> (subnormal numbers). Overflow to \<^verbatim>\<open>Infinity\<close> (from about
  \<open>1.8 * 10 ^ 308\<close>) is not modelled, and the sign of zero is not kept. Integers below
  \<open>2 ^ 53\<close> are doubles, so counters and clock readings and their differences are exact.\<close>

definition toDouble :: "rat \<Rightarrow> rat" where
  "toDouble x =
     (if x = 0 then 0
      else let e = max (binExp x) (- 1022) - 52
           in of_int (roundEven (x / 2 powi e)) * 2 powi e)"


section \<open>Order system\<close>

text \<open>\<^verbatim>\<open>new Order(dishId, dishName, timeLimit)\<close>, with the generated id and the clock
  reading as parameters; \<^verbatim>\<open>timeLimit\<close> arrives in seconds and is stored as the double
  \<^verbatim>\<open>timeLimit * 1000\<close>.\<close>

definition newOrder :: "string \<Rightarrow> string \<Rightarrow> string \<Rightarrow> rat \<Rightarrow> int \<Rightarrow> Order" where
  "newOrder newId dishId nm secs now =
     \<lparr>order_id = newId, order_dishId = dishId, dishName = nm,
      timeLimit = toDouble (secs * 1000),
      createdAt = now, order_isComplete = False, isActive = False, rating = None\<rparr>"

text \<open>\<^verbatim>\<open>getRemainingTime()\<close>: \<^verbatim>\<open>Math.ceil(Math.max(0, timeLimit - elapsed) / 1000)\<close>, where
  \<^verbatim>\<open>elapsed\<close> is a difference of two clock readings.\<close>

definition getRemainingTime :: "Order \<Rightarrow> int \<Rightarrow> int" where
  "getRemainingTime order now =
     (let elapsed = now - createdAt order;
          remaining = max 0 (toDouble (timeLimit order - of_int elapsed))
      in \<lceil>toDouble (remaining / 1000)\<rceil>)"

definition isExpired :: "Order \<Rightarrow> int \<Rightarrow> bool" where
  "isExpired order now = (getRemainingTime order now \<le> 0)"

text \<open>\<^verbatim>\<open>Order.complete(rating)\<close>.\<close>

definition order_complete :: "Order \<Rightarrow> Rating \<Rightarrow> Order" where
  "order_complete order r = order\<lparr>order_isComplete := True, rating := Some r\<rparr>"

text \<open>\<^verbatim>\<open>new OrderSystem(dishSystem)\<close>.\<close>

definition newOrderSystem :: OrderSystem where
  "newOrderSystem =
     \<lparr>activeOrders = [], completedOrders = [], maxActiveOrders = 5, totalScore = 0,
      ordersCompleted = 0, perfectOrders = 0, feedbackShown = []\<rparr>"

text \<open>\<^verbatim>\<open>spawnOrder()\<close>. \<open>pick\<close> is the value of
  \<^verbatim>\<open>Math.floor(Math.random() * availableDishes.length)\<close> and \<open>rnd\<close> the second
  \<^verbatim>\<open>Math.random()\<close>. The time limit \<^verbatim>\<open>baseTime + difficultyModifier + Math.random() * 20\<close>
  is computed from left to right; the first sum is a sum of small integers. With no dish at the picked index \<^verbatim>\<open>randomDish\<close> is \<^verbatim>\<open>undefined\<close>
  and reading its \<^verbatim>\<open>difficulty\<close> throws.\<close>

definition spawnOrder ::
  "DishSystem \<Rightarrow> OrderSystem \<Rightarrow> string \<Rightarrow> nat \<Rightarrow> rat \<Rightarrow> int
     \<Rightarrow> js_error + (Order option \<times> OrderSystem)" where
  "spawnOrder ds os newId pick rnd now =
     (if maxActiveOrders os \<le> length (activeOrders os) then Inr (None, os)
      else let availableDishes = getAllDishes ds
           in if length availableDishes \<le> pick then Inl TypeError
              else let randomDish = availableDishes ! pick;
                       baseTime = 45;
                       difficultyModifier = toDouble (of_nat (difficulty randomDish) * 10);
                       secs = toDouble (toDouble (baseTime + difficultyModifier)
                                          + toDouble (rnd * 20));
                       order = newOrder newId (dish_id randomDish) (dish_name randomDish) secs now
                   in Inr (Some order,
                           os\<lparr>activeOrders := AList.update newId order (activeOrders os)\<rparr>))"

text \<open>The entry of \<^verbatim>\<open>activeOrders\<close> that \<^verbatim>\<open>find(o => o.isActive)\<close> returns, with its key.\<close>

definition getActiveEntry :: "OrderSystem \<Rightarrow> (string \<times> Order) option" where
  "getActiveEntry os = find (\<lambda>(k, order). isActive order) (activeOrders os)"

definition getActiveOrder :: "OrderSystem \<Rightarrow> Order option" where
  "getActiveOrder os = map_option snd (getActiveEntry os)"

text \<open>\<^verbatim>\<open>selectOrder(orderId)\<close>: the first order found active is deselected, then the
  order stored under \<open>orderId\<close> is activated and returned.\<close>

definition selectOrder :: "OrderSystem \<Rightarrow> string \<Rightarrow> Order option \<times> OrderSystem" where
  "selectOrder os orderId =
     (case map_of (activeOrders os) orderId of
        None \<Rightarrow> (None, os)
      | Some _ \<Rightarrow>
          (let os1 = (case getActiveEntry os of
                        None \<Rightarrow> os
                      | Some (k, previousActive) \<Rightarrow>
                          os\<lparr>activeOrders := AList.update k
                               (previousActive\<lparr>isActive := False\<rparr>) (activeOrders os)\<rparr>)
           in case map_of (activeOrders os1) orderId of
                None \<Rightarrow> (None, os1)
              | Some order \<Rightarrow>
                  (let order' = order\<lparr>isActive := True\<rparr>
                   in (Some order',
                       os1\<lparr>activeOrders := AList.update orderId order' (activeOrders os1)\<rparr>))))"

text \<open>The comparison \<^verbatim>\<open>remainingTime / totalTime > c\<close> for a positive constant \<open>c\<close>, on
  the double that the division returns. JavaScript's division by zero gives \<^verbatim>\<open>Infinity\<close> for a positive numerator and
  \<^verbatim>\<open>NaN\<close> for zero, where HOL's gives \<open>0\<close>, so that case is written out.\<close>

definition timeRatioExceeds :: "int \<Rightarrow> rat \<Rightarrow> rat \<Rightarrow> bool" where
  "timeRatioExceeds remainingTime totalTime c =
     (if totalTime = 0 then 0 < remainingTime
      else c < toDouble (of_int remainingTime / totalTime))"

text \<open>\<^verbatim>\<open>completeOrder(orderId, dishValid)\<close>.\<close>

definition completeOrder ::
  "OrderSystem \<Rightarrow> string \<Rightarrow> bool \<Rightarrow> int \<Rightarrow> Order option \<times> OrderSystem" where
  "completeOrder os orderId dishValid now =
     (case map_of (activeOrders os) orderId of
        None \<Rightarrow> (None, os)
      | Some order \<Rightarrow>
          (let remainingTime = getRemainingTime order now;
               totalTime = toDouble (timeLimit order / 1000);
               (r, score, perfect) =
                 (if dishValid then
                    (if timeRatioExceeds remainingTime totalTime (3 / 4)
                       then (Perfect, 100, 1)
                     else if timeRatioExceeds remainingTime totalTime (1 / 4)
                       then (Good, 60, 0)
                     else if 0 < remainingTime then (Average, 30, 0)
                     else (Bad, 0, 0))
                  else (Bad, 0, 0));
               order' = order_complete order r
           in (Some order',
               os\<lparr>completedOrders := completedOrders os @ [order'],
                  totalScore := totalScore os + score,
                  ordersCompleted := ordersCompleted os + 1,
                  perfectOrders := perfectOrders os + perfect,
                  activeOrders := AList.delete orderId (activeOrders os),
                  feedbackShown := (rating order', score) # feedbackShown os\<rparr>)))"

text \<open>\<^verbatim>\<open>expireOrder(orderId)\<close>.\<close>

definition expireOrder :: "OrderSystem \<Rightarrow> string \<Rightarrow> Order option \<times> OrderSystem" where
  "expireOrder os orderId =
     (case map_of (activeOrders os) orderId of
        None \<Rightarrow> (None, os)
      | Some order \<Rightarrow>
          (let order' = order_complete order Failed
           in (Some order',
               os\<lparr>completedOrders := completedOrders os @ [order'],
                  activeOrders := AList.delete orderId (activeOrders os),
                  feedbackShown := (rating order', - 20) # feedbackShown os\<rparr>)))"

text \<open>One run of the \<^verbatim>\<open>updateTimer\<close> callback that \<^verbatim>\<open>startOrderTimer\<close> schedules every
  second for an order: it expires the order once no time remains.\<close>

definition orderTimerFires :: "OrderSystem \<Rightarrow> string \<Rightarrow> int \<Rightarrow> OrderSystem" where
  "orderTimerFires os orderId now =
     (case map_of (activeOrders os) orderId of
        None \<Rightarrow> os
      | Some order \<Rightarrow>
          if order_isComplete order then os
          else if 0 < getRemainingTime order now then os
          else snd (expireOrder os orderId))"

text \<open>\<^verbatim>\<open>Math.round\<close> returns the integer nearest to a double, halves upwards.\<close>

definition mathRound :: "rat \<Rightarrow> int" where
  "mathRound x = \<lfloor>x + 1 / 2\<rfloor>"

definition getStats :: "OrderSystem \<Rightarrow> Stats" where
  "getStats os =
     \<lparr>stats_totalScore = totalScore os,
      stats_ordersCompleted = ordersCompleted os,
      stats_perfectOrders = perfectOrders os,
      stats_activeOrders = length (activeOrders os),
      averageScore = (if 0 < ordersCompleted os
                      then mathRound (toDouble (of_int (totalScore os) / of_nat (ordersCompleted os)))
                      else 0),
      perfectRate = (if 0 < ordersCompleted os
                     then mathRound (toDouble
                            (toDouble (of_nat (perfectOrders os) / of_nat (ordersCompleted os))
                               * 100))
                     else 0)\<rparr>"

definition clearAllOrders :: "OrderSystem \<Rightarrow> OrderSystem" where
  "clearAllOrders os =
     os\<lparr>activeOrders := [], completedOrders := [], totalScore := 0,
        ordersCompleted := 0, perfectOrders := 0\<rparr>"

section \<open>Game controller\<close>

text \<open>\<^verbatim>\<open>new CookTapGame()\<close>: the three systems; \<^verbatim>\<open>initializeGame\<close> builds the stations a
  second time.\<close>

definition newGame :: Game where
  "newGame =
     \<lparr>dishSystem = newDishSystem,
      cookingStationManager =
        initializeStations newDishSystem (newCookingStationManager newDishSystem),
      orderSystem = newOrderSystem\<rparr>"

definition game_selectOrder :: "Game \<Rightarrow> string \<Rightarrow> bool \<times> Game" where
  "game_selectOrder g orderId =
     (case selectOrder (orderSystem g) orderId of
        (None, os') \<Rightarrow> (False, g\<lparr>orderSystem := os'\<rparr>)
      | (Some order, os') \<Rightarrow>
          (True, g\<lparr>orderSystem := os',
                   cookingStationManager :=
                     snd (setActiveDish (dishSystem g) (cookingStationManager g)
                            (order_dishId order) None)\<rparr>))"

definition game_addIngredient :: "Game \<Rightarrow> string \<Rightarrow> string \<Rightarrow> bool \<times> Game" where
  "game_addIngredient g dishId ingredientId =
     (let (success, ds') = addIngredientToDish (dishSystem g) dishId ingredientId
      in (success, g\<lparr>dishSystem := ds'\<rparr>))"

text \<open>The loop of \<^verbatim>\<open>useTool\<close> that runs after a successful tool use: it looks for the
  first added, not yet ready ingredient whose last completed prep step has the tool as
  its action and names a station other than \<^verbatim>\<open>prep\<close>, and returns the ingredient with
  that station. Index \<^verbatim>\<open>prepStepsCompleted - 1\<close> is \<^verbatim>\<open>-1\<close> when nothing is completed,
  which reads \<^verbatim>\<open>undefined\<close>.\<close>

fun findCookingStep :: "IngredientSpec list \<Rightarrow> Dish \<Rightarrow> string \<Rightarrow> (string \<times> string) option" where
  "findCookingStep [] dish toolId = None"
| "findCookingStep (ingredient # rest) dish toolId =
     (if ing_id ingredient \<notin> currentIngredients dish then findCookingStep rest dish toolId
      else case map_of (ingredientStates dish) (ing_id ingredient) of
        None \<Rightarrow> findCookingStep rest dish toolId
      | Some ingredientState \<Rightarrow>
          if isReady ingredientState then findCookingStep rest dish toolId
          else if 0 < prepStepsCompleted ingredientState
                  \<and> prepStepsCompleted ingredientState - 1 < length (prepSteps ingredient)
          then
            (let completedStep = prepSteps ingredient ! (prepStepsCompleted ingredientState - 1)
             in case step_station completedStep of
                  None \<Rightarrow> findCookingStep rest dish toolId
                | Some s \<Rightarrow>
                    if step_action completedStep = toolId \<and> s \<noteq> [] \<and> s \<noteq> ''prep''
                    then Some (ing_id ingredient, s)
                    else findCookingStep rest dish toolId)
          else findCookingStep rest dish toolId)"

definition game_useTool :: "Game \<Rightarrow> string \<Rightarrow> string \<Rightarrow> int \<Rightarrow> bool \<times> Game" where
  "game_useTool g dishId toolId now =
     (case getDish (dishSystem g) dishId of
        None \<Rightarrow> (False, g)
      | Some _ \<Rightarrow>
          (case getTool (dishSystem g) toolId of
             None \<Rightarrow> (False, g)
           | Some tool \<Rightarrow>
               (let (success, ds') = useToolOnDish (dishSystem g) dishId toolId;
                    g1 = g\<lparr>dishSystem := ds'\<rparr>
                in if \<not> success then (False, g1)
                   else case getDish ds' dishId of
                     None \<Rightarrow> (True, g1)
                   | Some dish \<Rightarrow>
                       (case findCookingStep (ingredients dish) dish toolId of
                          None \<Rightarrow> (True, g1)
                        | Some (ingredientId, stationId) \<Rightarrow>
                            (let mgr1 = snd (setActiveDish ds' (cookingStationManager g1)
                                               dishId (Some stationId));
                                 mgr2 = snd (handleCookingAction ds' mgr1 toolId
                                               ingredientId now)
                             in (True, g1\<lparr>cookingStationManager := mgr2\<rparr>))))))"

text \<open>\<^verbatim>\<open>serveDish()\<close>: the gate is \<^verbatim>\<open>isDishValid\<close>; \<^verbatim>\<open>dish.isComplete\<close> only feeds a log
  line.\<close>

definition game_serveDish :: "Game \<Rightarrow> int \<Rightarrow> bool \<times> Game" where
  "game_serveDish g now =
     (case getActiveEntry (orderSystem g) of
        None \<Rightarrow> (False, g)
      | Some (k, activeOrder) \<Rightarrow>
          (case getDish (dishSystem g) (order_dishId activeOrder) of
             None \<Rightarrow> (False, g)
           | Some dish \<Rightarrow>
               (let isValid = isDishValid (dishSystem g) (order_dishId activeOrder)
                in if \<not> isValid then (False, g)
                   else
                    (let os' = snd (completeOrder (orderSystem g) (order_id activeOrder)
                                      isValid now);
                         ds' = snd (resetDish (dishSystem g) (order_dishId activeOrder));
                         mgr' = clearCurrentDish (cookingStationManager g)
                     in (True, \<lparr>dishSystem = ds', cookingStationManager = mgr',
                               orderSystem = os'\<rparr>)))))"

definition game_cancelCurrentDish :: "Game \<Rightarrow> Game" where
  "game_cancelCurrentDish g =
     (case getActiveEntry (orderSystem g) of
        None \<Rightarrow> g
      | Some (k, activeOrder) \<Rightarrow>
          (let ds' = snd (resetDish (dishSystem g) (order_dishId activeOrder));
               mgr' = clearCurrentDish (cookingStationManager g);
               os' = (orderSystem g)\<lparr>activeOrders := AList.update k
                        (activeOrder\<lparr>isActive := False\<rparr>) (activeOrders (orderSystem g))\<rparr>
           in \<lparr>dishSystem = ds', cookingStationManager = mgr', orderSystem = os'\<rparr>))"

text \<open>The body of the \<^verbatim>\<open>forEach\<close> of \<^verbatim>\<open>retrieveCookedItems\<close>, for the ready items in
  turn; the count of retrieved items is threaded along. An empty ingredient id is
  falsy.\<close>

fun retrieveLoop ::
  "(string \<times> nat \<times> CookingItem) list \<Rightarrow> string \<Rightarrow> nat \<times> Game \<Rightarrow> nat \<times> Game" where
  "retrieveLoop [] dishId (retrieved, g) = (retrieved, g)"
| "retrieveLoop ((stationId, slotIndex, item) # rest) dishId (retrieved, g) =
     (case removeCookedItem (cookingStationManager g) stationId slotIndex of
        (None, mgr') \<Rightarrow> retrieveLoop rest dishId (retrieved, g\<lparr>cookingStationManager := mgr'\<rparr>)
      | (Some _, mgr') \<Rightarrow>
          (let g1 = g\<lparr>cookingStationManager := mgr'\<rparr>;
               g2 = (if item_ingredient item = [] then g1
                     else case getDish (dishSystem g1) dishId of
                       None \<Rightarrow> g1
                     | Some dish \<Rightarrow>
                         (case map_of (ingredientStates dish) (item_ingredient item) of
                            None \<Rightarrow> g1
                          | Some ingredientState \<Rightarrow>
                              g1\<lparr>dishSystem := putDish (dishSystem g1) dishId
                                (dish\<lparr>ingredientStates := AList.update (item_ingredient item)
                                   (ingredientState\<lparr>isReady := True\<rparr>)
                                   (ingredientStates dish)\<rparr>)\<rparr>))
           in retrieveLoop rest dishId (retrieved + 1, g2)))"

text \<open>\<^verbatim>\<open>retrieveCookedItems()\<close>. After a retrieval the method switches to the prep station
  and then calls \<^verbatim>\<open>cookingStationManager.updateAllStationDisplays()\<close>, which
  \<^verbatim>\<open>CookingStationManager\<close> does not define: the call throws a \<^verbatim>\<open>TypeError\<close>, so the
  method never returns \<^verbatim>\<open>true\<close>. The state changes made before the call remain.\<close>

definition game_retrieveCookedItems :: "Game \<Rightarrow> (js_error + bool) \<times> Game" where
  "game_retrieveCookedItems g =
     (let readyItems = getReadyItems (cookingStationManager g)
      in if length readyItems = 0 then (Inr False, g)
         else case getActiveOrder (orderSystem g) of
           None \<Rightarrow> (Inr False, g)
         | Some activeOrder \<Rightarrow>
             (case getDish (dishSystem g) (order_dishId activeOrder) of
                None \<Rightarrow> (Inr False, g)
              | Some _ \<Rightarrow>
                  (let (retrieved, g1) =
                         retrieveLoop readyItems (order_dishId activeOrder) (0, g)
                   in if 0 < retrieved
                      then (Inl TypeError,
                            g1\<lparr>cookingStationManager :=
                              snd (setActiveDish (dishSystem g1) (cookingStationManager g1)
                                     (order_dishId activeOrder) (Some ''prep''))\<rparr>)
                      else (Inr False, g1))))"

text \<open>The state changes of \<^verbatim>\<open>resetGame()\<close>.\<close>

definition game_resetGame :: "Game \<Rightarrow> Game" where
  "game_resetGame g =
     \<lparr>dishSystem = fold (\<lambda>dish ds. snd (resetDish ds (dish_id dish)))
                     (getAllDishes (dishSystem g)) (dishSystem g),
      cookingStationManager = clearCurrentDish (cookingStationManager g),
      orderSystem = clearAllOrders (orderSystem g)\<rparr>"

subsection \<open>Runs of the game\<close>

text \<open>What can happen to a running game: the commands of the controller, the spawn
  timer, the per-order countdown timer and the per-slot cooking timer, each with the
  clock reading and random numbers it uses. A command that throws leaves the state as it
  is at the throw.\<close>

datatype event =
    SpawnOrder string nat rat int
  | SelectOrder string
  | AddIngredient string string
  | UseTool string string int
  | ServeDish int
  | CancelCurrentDish
  | RetrieveCookedItems
  | ResetGame
  | OrderTimer string int
  | SlotTimer string nat

fun step :: "Game \<Rightarrow> event \<Rightarrow> Game" where
  "step g (SpawnOrder newId pick rnd now) =
     (case spawnOrder (dishSystem g) (orderSystem g) newId pick rnd now of
        Inl _ \<Rightarrow> g
      | Inr (_, os') \<Rightarrow> g\<lparr>orderSystem := os'\<rparr>)"
| "step g (SelectOrder orderId) = snd (game_selectOrder g orderId)"
| "step g (AddIngredient dishId ingredientId) = snd (game_addIngredient g dishId ingredientId)"
| "step g (UseTool dishId toolId now) = snd (game_useTool g dishId toolId now)"
| "step g (ServeDish now) = snd (game_serveDish g now)"
| "step g CancelCurrentDish = game_cancelCurrentDish g"
| "step g RetrieveCookedItems = snd (game_retrieveCookedItems g)"
| "step g ResetGame = game_resetGame g"
| "step g (OrderTimer orderId now) =
     g\<lparr>orderSystem := orderTimerFires (orderSystem g) orderId now\<rparr>"
| "step g (SlotTimer stationId slotIndex) =
     g\<lparr>cookingStationManager :=
         slotTimerFires (cookingStationManager g) stationId slotIndex\<rparr>"

definition run :: "Game \<Rightarrow> event list \<Rightarrow> Game" where
  "run g es = foldl step g es"


section \<open>Notions of the specification and sample data\<close>


text \<open>An order with a time limit of 60 seconds, created at time 0, alone in the order
  system.\<close>

definition sampleOrder :: Order where
  "sampleOrder = newOrder ''o1'' ''classic_burger'' ''Classic Burger'' 60 0"





text \<open>The condition under which \<^verbatim>\<open>useToolOnDish\<close> advances an ingredient: it is
  added, not yet ready, and its next pending prep step has the tool as its action.\<close>

definition pendingStepMatches :: "Dish \<Rightarrow> string \<Rightarrow> IngredientSpec \<Rightarrow> bool" where
  "pendingStepMatches dish toolId ing =
     (ing_id ing \<in> currentIngredients dish \<and>
      (case map_of (ingredientStates dish) (ing_id ing) of
         None \<Rightarrow> False
       | Some st \<Rightarrow> \<not> isReady st \<and> prepStepsCompleted st < length (prepSteps ing)
                    \<and> step_action (prepSteps ing ! prepStepsCompleted st) = toolId))"

text \<open>The tool is the action of the current final step.\<close>

definition finalStepMatches :: "Dish \<Rightarrow> string \<Rightarrow> bool" where
  "finalStepMatches dish toolId =
     (finalStepsProgress dish < length (finalSteps dish)
      \<and> step_action (finalSteps dish ! finalStepsProgress dish) = toolId)"

text \<open>The prep-step counter of an ingredient, 0 while it is not added.\<close>

definition stepsDone :: "Dish \<Rightarrow> string \<Rightarrow> nat" where
  "stepsDone dish k =
     (case map_of (ingredientStates dish) k of None \<Rightarrow> 0 | Some st \<Rightarrow> prepStepsCompleted st)"

text \<open>The catalog's burger with the bun added and nothing prepared yet.\<close>

definition burgerWithBun :: DishSystem where
  "burgerWithBun = snd (addIngredientToDish newDishSystem ''classic_burger'' ''burger_bun'')"

definition burgerWithBunDish :: Dish where
  "burgerWithBunDish =
     (freshDish ''classic_burger'' classicBurgerData)
       \<lparr>currentIngredients := {''burger_bun''},
        ingredientStates :=
          [(''burger_bun'', \<lparr>added = True, prepStepsCompleted = 0, isReady = False\<rparr>)]\<rparr>"

text \<open>The catalog's pasta with both required ingredients added and the pasta boiled; no
  final step is done. An active order for it, in a game of its own.\<close>

definition pastaReady :: DishSystem where
  "pastaReady =
     snd (useToolOnDish
       (snd (addIngredientToDish
          (snd (addIngredientToDish newDishSystem ''pasta_marinara'' ''pasta''))
          ''pasta_marinara'' ''tomato_sauce''))
       ''pasta_marinara'' ''boil'')"

definition pastaReadyDish :: Dish where
  "pastaReadyDish =
     (freshDish ''pasta_marinara'' pastaMarinaraData)
       \<lparr>currentIngredients := {''pasta'', ''tomato_sauce''},
        ingredientStates :=
          [(''pasta'', \<lparr>added = True, prepStepsCompleted = 1, isReady = True\<rparr>),
           (''tomato_sauce'', \<lparr>added = True, prepStepsCompleted = 0, isReady = True\<rparr>)]\<rparr>"

definition pastaOrder :: Order where
  "pastaOrder = (newOrder ''o2'' ''pasta_marinara'' ''Pasta Marinara'' 65 0)\<lparr>isActive := True\<rparr>"

definition pastaGame :: Game where
  "pastaGame =
     \<lparr>dishSystem = pastaReady, cookingStationManager = cookingStationManager newGame,
      orderSystem = newOrderSystem\<lparr>activeOrders := [(''o2'', pastaOrder)]\<rparr>\<rparr>"

text \<open>A session on the fresh game: a Caesar salad is ordered and selected, the chicken
  is added and put on the grill, and the grill slot's timer fires.\<close>

definition caesarRun :: "event list" where
  "caesarRun =
     [SpawnOrder ''o1'' 3 0 0, SelectOrder ''o1'',
      AddIngredient ''caesar_salad'' ''chicken_breast'',
      UseTool ''caesar_salad'' ''grill'' 1000, SlotTimer ''grill'' 0]"

text \<open>Another session: a burger is ordered (time limit 65 seconds) and selected, and
  the bun is added.\<close>

definition expiryRun :: "event list" where
  "expiryRun =
     [SpawnOrder ''o1'' 0 0 0, SelectOrder ''o1'',
      AddIngredient ''classic_burger'' ''burger_bun'']"

text \<open>The recipe part of a stored dish: its id and the \<^verbatim>\<open>dishData\<close> it was built from.
  The reference data of a dish system: the recipe parts of its dishes in order, and the
  ingredient, tool and station tables.\<close>

definition recipeOf :: "Dish \<Rightarrow> string \<times> DishData" where
  "recipeOf d =
     (dish_id d,
      \<lparr>data_name = dish_name d, data_station = dish_station d, data_baseColor = baseColor d,
       data_ingredients = ingredients d, data_finalSteps = finalSteps d,
       data_difficulty = difficulty d, data_prepTime = prepTime d\<rparr>)"

definition catalogOf ::
  "DishSystem \<Rightarrow> (string \<times> string \<times> DishData) list \<times> (string \<times> ItemDef) list
     \<times> (string \<times> ItemDef) list \<times> (string \<times> StationConfig) list" where
  "catalogOf ds =
     (map (\<lambda>(k, d). (k, recipeOf d)) (dishes ds), ds_ingredients ds, tools ds,
      cookingStations ds)"

text \<open>The number of orders in \<^verbatim>\<open>activeOrders\<close> whose \<^verbatim>\<open>isActive\<close> flag is set, that
  is, the number of selected orders.\<close>

definition activeCount :: "OrderSystem \<Rightarrow> nat" where
  "activeCount os = length (filter isActive (map snd (activeOrders os)))"

text \<open>The keys of \<^verbatim>\<open>activeOrders\<close> are distinct, as in any \<^verbatim>\<open>Map\<close>, and at most one
  order is selected.\<close>

definition ordersOk :: "OrderSystem \<Rightarrow> bool" where
  "ordersOk os \<longleftrightarrow> distinct (map fst (activeOrders os)) \<and> activeCount os \<le> 1"

text \<open>Two orders, the second one selected.\<close>

definition twoOrders :: OrderSystem where
  "twoOrders = newOrderSystem\<lparr>activeOrders := [(''o1'', sampleOrder), (''o2'', pastaOrder)]\<rparr>"

text \<open>Every slot index below the station's \<^verbatim>\<open>cookingSlots\<close> holds an item.\<close>

definition stationFull :: "CookingStation \<Rightarrow> bool" where
  "stationFull st \<longleftrightarrow> (\<forall>i < cookingSlots st. i \<in> fst ` set (currentItems st))"

text \<open>The slot indices of a station's items are distinct and below \<^verbatim>\<open>cookingSlots\<close>, that
  count is at least one, and a one-slot station holds no items.\<close>

definition stationOk :: "CookingStation \<Rightarrow> bool" where
  "stationOk st \<longleftrightarrow>
     distinct (map fst (currentItems st))
     \<and> (\<forall>i \<in> fst ` set (currentItems st). i < cookingSlots st)
     \<and> 1 \<le> cookingSlots st
     \<and> (cookingSlots st \<le> 1 \<longrightarrow> currentItems st = [])"

text \<open>Every station of the manager is in order.\<close>

definition stationsOk :: "CookingStationManager \<Rightarrow> bool" where
  "stationsOk mgr \<longleftrightarrow> (\<forall>st \<in> snd ` set (stations mgr). stationOk st)"

text \<open>The station stored under the id exists and is full.\<close>

definition fullAt :: "CookingStationManager \<Rightarrow> string \<Rightarrow> bool" where
  "fullAt mgr stationId \<longleftrightarrow>
     (case map_of (stations mgr) stationId of None \<Rightarrow> False | Some st \<Rightarrow> stationFull st)"

text \<open>A session that fills the three grill slots: the salad's chicken is put on the
  grill, the dish is cancelled and selected again, twice over, and the chicken is
  grilled a third time.\<close>

definition fillGrillRun :: "event list" where
  "fillGrillRun =
     [SpawnOrder ''o1'' 3 0 0, SelectOrder ''o1'',
      AddIngredient ''caesar_salad'' ''chicken_breast'', UseTool ''caesar_salad'' ''grill'' 1000,
      CancelCurrentDish, SelectOrder ''o1'',
      AddIngredient ''caesar_salad'' ''chicken_breast'', UseTool ''caesar_salad'' ''grill'' 2000,
      CancelCurrentDish, SelectOrder ''o1'',
      AddIngredient ''caesar_salad'' ''chicken_breast'', UseTool ''caesar_salad'' ''grill'' 3000]"

text \<open>The ready flag of every added ingredient says that all prep steps of its recipe
  entry are completed.\<close>

definition readyMatchesSteps :: "Dish \<Rightarrow> bool" where
  "readyMatchesSteps dish \<longleftrightarrow>
     (\<forall>ing \<in> set (ingredients dish). \<forall>st.
        map_of (ingredientStates dish) (ing_id ing) = Some st \<longrightarrow>
          (isReady st \<longleftrightarrow> prepStepsCompleted st = length (prepSteps ing)))"


section \<open>Basic facts\<close>

subsection \<open>Rounding to doubles\<close>

text \<open>\<open>binExp\<close> is the binary exponent, the rounding error of \<open>toDouble\<close> is at most half
  the spacing of the doubles around its argument, integers below \<open>2 ^ 53\<close> are not rounded,
  and rounding keeps the sign of every number that is not below the smallest positive
  double.\<close>

lemma binExp_lower:
  assumes "x \<noteq> 0"
  shows "2 powi binExp x \<le> \<bar>x\<bar>"
proof -
  obtain p q where pq: "quotient_of \<bar>x\<bar> = (p, q)" by (cases "quotient_of \<bar>x\<bar>") auto
  then have q: "0 < q" by (rule quotient_of_denom_pos)
  from pq have x: "\<bar>x\<bar> = of_int p / of_int q" by (rule quotient_of_div)
  from assms have "0 < \<bar>x\<bar>" by simp
  with x q have p: "0 < p" by (simp add: zero_less_divide_iff)
  define k where "k = bitlen p - bitlen q"
  show ?thesis
  proof (cases "2 powi k \<le> \<bar>x\<bar>")
    case True
    then show ?thesis by (simp add: binExp_def pq k_def)
  next
    case False
    have bp: "1 \<le> bitlen p" and bq: "1 \<le> bitlen q"
      using p q by (auto simp: bitlen_alt_def)
    from bitlen_bounds [OF p] have "(2::int) ^ nat (bitlen p - 1) \<le> p" by simp
    then have "(of_int ((2::int) ^ nat (bitlen p - 1)) :: rat) \<le> of_int p"
      by (rule of_int_le_iff [THEN iffD2])
    then have lp: "(2::rat) powi (bitlen p - 1) \<le> of_int p"
      using bp by (simp add: power_int_def)
    from bitlen_bounds [OF q] have "q \<le> (2::int) ^ nat (bitlen q)" by simp
    then have "(of_int q :: rat) \<le> of_int ((2::int) ^ nat (bitlen q))"
      by (rule of_int_le_iff [THEN iffD2])
    then have uq: "of_int q \<le> (2::rat) powi (bitlen q)"
      using bq by (simp add: power_int_def)
    have "k - 1 = (bitlen p - 1) - bitlen q" by (simp add: k_def)
    then have "(2::rat) powi (k - 1) = 2 powi (bitlen p - 1) / 2 powi (bitlen q)"
      by (simp only: power_int_diff [of "2::rat", simplified])
    also have "\<dots> \<le> of_int p / 2 powi (bitlen q)"
      using lp by (simp add: divide_right_mono)
    also have "\<dots> \<le> of_int p / of_int q"
      using uq p q by (simp add: divide_left_mono)
    finally have "(2::rat) powi (k - 1) \<le> \<bar>x\<bar>" by (simp add: x)
    with False show ?thesis by (simp add: binExp_def pq k_def)
  qed
qed

lemma roundEven_of_int [simp]: "roundEven (of_int n) = n"
  by (simp add: roundEven_def)


lemma toDouble_of_int:
  assumes "\<bar>n\<bar> < 2 ^ 53"
  shows "toDouble (of_int n) = of_int n"
proof (cases "n = 0")
  case True
  then show ?thesis by (simp add: toDouble_def)
next
  case False
  define x :: rat where "x = of_int n"
  have x0: "x \<noteq> 0" using False by (simp add: x_def)
  define e where "e = max (binExp x) (- 1022) - 52"
  have "2 powi binExp x \<le> \<bar>x\<bar>" using x0 by (rule binExp_lower)
  also have "\<bar>x\<bar> < 2 ^ 53"
    using assms unfolding x_def by (metis of_int_abs of_int_less_iff of_int_numeral of_int_power)
  finally have "(2::rat) powi binExp x < 2 powi 53" by simp
  then have "binExp x < 53" by (rule power_int_le_imp_less_exp [rotated]) simp_all
  then have e: "e \<le> 0" by (simp add: e_def)
  have "x / 2 powi e = of_int (n * 2 ^ nat (- e))"
    using e by (simp add: x_def power_int_def field_simps)
  then have "roundEven (x / 2 powi e) = n * 2 ^ nat (- e)"
    by (simp only: roundEven_of_int)
  then have "of_int (roundEven (x / 2 powi e)) * 2 powi e = x"
    using e by (simp add: x_def power_int_def field_simps)
  then show ?thesis
    using x0 by (simp add: toDouble_def Let_def e_def x_def)
qed




lemma binExp_upper:
  assumes "x \<noteq> 0"
  shows "\<bar>x\<bar> < 2 powi (binExp x + 1)"
proof -
  obtain p q where pq: "quotient_of \<bar>x\<bar> = (p, q)" by (cases "quotient_of \<bar>x\<bar>") auto
  then have q: "0 < q" by (rule quotient_of_denom_pos)
  from pq have x: "\<bar>x\<bar> = of_int p / of_int q" by (rule quotient_of_div)
  from assms have "0 < \<bar>x\<bar>" by simp
  with x q have p: "0 < p" by (simp add: zero_less_divide_iff)
  define k where "k = bitlen p - bitlen q"
  show ?thesis
  proof (cases "2 powi k \<le> \<bar>x\<bar>")
    case False
    then show ?thesis by (simp add: binExp_def pq k_def)
  next
    case True
    have bp: "1 \<le> bitlen p" and bq: "1 \<le> bitlen q"
      using p q by (auto simp: bitlen_alt_def)
    from bitlen_bounds [OF p] have "p < (2::int) ^ nat (bitlen p)" by simp
    then have "(of_int p :: rat) < of_int ((2::int) ^ nat (bitlen p))"
      by (rule of_int_less_iff [THEN iffD2])
    then have up: "of_int p < (2::rat) powi (bitlen p)"
      using bp by (simp add: power_int_def)
    from bitlen_bounds [OF q] have "(2::int) ^ nat (bitlen q - 1) \<le> q" by simp
    then have "(of_int ((2::int) ^ nat (bitlen q - 1)) :: rat) \<le> of_int q"
      by (rule of_int_le_iff [THEN iffD2])
    then have lq: "(2::rat) powi (bitlen q - 1) \<le> of_int q"
      using bq by (simp add: power_int_def)
    have "\<bar>x\<bar> = of_int p / of_int q" by (rule x)
    also have "\<dots> < 2 powi (bitlen p) / of_int q"
      using up q by (simp add: divide_strict_right_mono)
    also have "\<dots> \<le> 2 powi (bitlen p) / 2 powi (bitlen q - 1)"
      using lq by (intro frac_le) simp_all
    also have "\<dots> = (2::rat) powi (bitlen p - (bitlen q - 1))"
      by (simp only: power_int_diff [of "2::rat", simplified])
    also have "bitlen p - (bitlen q - 1) = k + 1" by (simp add: k_def)
    finally show ?thesis using True by (simp add: binExp_def pq k_def)
  qed
qed

lemma roundEven_le: "of_int (roundEven x) \<le> x + 1 / 2"
proof -
  define f where "f = \<lfloor>x\<rfloor>"
  have "of_int f \<le> x" unfolding f_def by (rule of_int_floor_le)
  then show ?thesis
    unfolding roundEven_def Let_def f_def [symmetric] by auto
qed

lemma roundEven_ge: "x - 1 / 2 \<le> of_int (roundEven x)"
proof -
  define f where "f = \<lfloor>x\<rfloor>"
  have "x < of_int f + 1" unfolding f_def by linarith
  then show ?thesis
    unfolding roundEven_def Let_def f_def [symmetric] by auto
qed

lemma toDouble_zero [simp]: "toDouble 0 = 0"
  by (simp add: toDouble_def)

lemma toDouble_numeral:
  "(numeral k :: int) < 2 ^ 53 \<Longrightarrow> toDouble (numeral k) = numeral k"
  using toDouble_of_int [of "numeral k"] by simp

lemma toDouble_error:
  assumes "x \<noteq> 0"
  shows "\<bar>toDouble x - x\<bar> \<le> 2 powi (max (binExp x) (- 1022) - 53)"
proof -
  define e where "e = max (binExp x) (- 1022) - 52"
  define m where "m = x / 2 powi e"
  have pe: "0 < (2::rat) powi e" by simp
  have x: "x = m * 2 powi e" by (simp add: m_def)
  have "\<bar>of_int (roundEven m) - m\<bar> \<le> 1 / 2"
    using roundEven_le [of m] roundEven_ge [of m] by linarith
  then have "\<bar>of_int (roundEven m) - m\<bar> * 2 powi e \<le> 1 / 2 * 2 powi e"
    using pe by (simp only: mult_le_cancel_right_pos)
  moreover have "\<bar>of_int (roundEven m) - m\<bar> * 2 powi e = \<bar>of_int (roundEven m) * 2 powi e - x\<bar>"
    using pe by (simp only: abs_mult_pos [OF less_imp_le] left_diff_distrib x [symmetric])
  moreover have "1 / 2 * (2::rat) powi e = 2 powi (e - 1)"
    by (simp add: power_int_diff)
  moreover have "e - 1 = max (binExp x) (- 1022) - 53" by (simp add: e_def)
  ultimately have "\<bar>of_int (roundEven m) * 2 powi e - x\<bar> \<le> 2 powi (max (binExp x) (- 1022) - 53)"
    by simp
  then show ?thesis using assms by (simp add: toDouble_def Let_def e_def [symmetric] m_def [symmetric])
qed

lemma toDouble_le:
  assumes "0 < x"
  shows "toDouble x \<le> 2 * x + 1"
proof -
  have x0: "x \<noteq> 0" using assms by simp
  define b where "b = max (binExp x) (- 1022)"
  have "(2::rat) powi (b - 53) \<le> 2 powi b" by (simp add: power_int_increasing)
  also have "\<dots> \<le> x + 1"
  proof (cases "binExp x \<le> - 1022")
    case True
    then have "b = - 1022" by (simp add: b_def)
    moreover have "(2::rat) powi (- 1022) \<le> 2 powi 0" by (rule power_int_increasing) simp_all
    ultimately show ?thesis using assms by simp
  next
    case False
    then have "b = binExp x" by (simp add: b_def)
    with binExp_lower [OF x0] assms show ?thesis by simp
  qed
  finally have "(2::rat) powi (b - 53) \<le> x + 1" .
  with toDouble_error [OF x0] show ?thesis unfolding b_def by linarith
qed

lemma roundEven_nonneg:
  assumes "0 \<le> y"
  shows "0 \<le> roundEven y"
proof -
  have "0 \<le> \<lfloor>y\<rfloor>" using assms by simp
  then show ?thesis by (auto simp: roundEven_def Let_def)
qed

lemma toDouble_nonneg:
  assumes "0 \<le> x"
  shows "0 \<le> toDouble x"
proof -
  have "0 \<le> roundEven (x / 2 powi e)" for e
    using assms by (intro roundEven_nonneg) simp
  then show ?thesis
    by (simp add: toDouble_def Let_def)
qed

lemma toDouble_ge_half:
  assumes "1 \<le> x"
  shows "x / 2 \<le> toDouble x"
proof -
  have x0: "x \<noteq> 0" using assms by simp
  have up: "1 < (2::rat) powi (binExp x + 1)"
    using binExp_upper [OF x0] assms by simp
  have "0 < binExp x + 1"
  proof (rule ccontr)
    assume "\<not> 0 < binExp x + 1"
    then have "(2::rat) powi (binExp x + 1) \<le> 2 powi 0"
      by (intro power_int_increasing) simp_all
    with up show False by simp
  qed
  then have b: "max (binExp x) (- 1022) = binExp x" by simp
  have "(2::rat) powi (binExp x - 53) \<le> 2 powi (binExp x - 1)"
    by (rule power_int_increasing) simp_all
  also have "\<dots> = 2 powi binExp x / 2" by (simp add: power_int_diff)
  also have "\<dots> \<le> x / 2" using binExp_lower [OF x0] assms by simp
  finally have "(2::rat) powi (binExp x - 53) \<le> x / 2" .
  with toDouble_error [OF x0] show ?thesis unfolding b by linarith
qed

text \<open>The statistics round as the code does: with 23 perfect orders among 40 the rate
  \<^verbatim>\<open>23 / 40 * 100\<close> is the double 57.49999999999999 and is shown as 57, where exact
  arithmetic has 57.5 and would show 58.\<close>

lemma getStats_perfectRate_rounding:
  "perfectRate (getStats (newOrderSystem\<lparr>ordersCompleted := 40, perfectOrders := 23\<rparr>)) = 57
   \<and> mathRound (23 / 40 * 100) = 58"
  unfolding getStats_def newOrderSystem_def mathRound_def by code_simp

subsection \<open>The catalog\<close>

lemma dishes_addIngredients:
  "dishes (fold (\<lambda>(i, n, t, c, k). addIngredient i n t c k) xs ds) = dishes ds"
  by (induction xs arbitrary: ds) (auto simp: addIngredient_def)

lemma dishes_addTools:
  "dishes (fold (\<lambda>(i, n, t, c, k). addTool i n t c k) xs ds) = dishes ds"
  by (induction xs arbitrary: ds) (auto simp: addTool_def)

lemma tools_addIngredients:
  "tools (fold (\<lambda>(i, n, t, c, k). addIngredient i n t c k) xs ds) = tools ds"
  by (induction xs arbitrary: ds) (auto simp: addIngredient_def)

lemma cookingStations_addIngredients:
  "cookingStations (fold (\<lambda>(i, n, t, c, k). addIngredient i n t c k) xs ds)
     = cookingStations ds"
  by (induction xs arbitrary: ds) (auto simp: addIngredient_def)

lemma cookingStations_addTools:
  "cookingStations (fold (\<lambda>(i, n, t, c, k). addTool i n t c k) xs ds) = cookingStations ds"
  by (induction xs arbitrary: ds) (auto simp: addTool_def)

lemma initializeIngredients_frame [simp]:
  "dishes (initializeIngredients ds) = dishes ds"
  "tools (initializeIngredients ds) = tools ds"
  "cookingStations (initializeIngredients ds) = cookingStations ds"
  by (simp_all only: initializeIngredients_def dishes_addIngredients tools_addIngredients
        cookingStations_addIngredients)

lemma initializeTools_frame [simp]:
  "dishes (initializeTools ds) = dishes ds"
  "cookingStations (initializeTools ds) = cookingStations ds"
  by (simp_all only: initializeTools_def dishes_addTools cookingStations_addTools)

lemma dishes_newDishSystem:
  "dishes newDishSystem =
     [(''classic_burger'', freshDish ''classic_burger'' classicBurgerData),
      (''margherita_pizza'', freshDish ''margherita_pizza'' margheritaPizzaData),
      (''fried_chicken'', freshDish ''fried_chicken'' friedChickenData),
      (''caesar_salad'', freshDish ''caesar_salad'' caesarSaladData),
      (''pasta_marinara'', freshDish ''pasta_marinara'' pastaMarinaraData)]"
  by (simp add: newDishSystem_def initializeDishes_def addDish_def
        initializeCookingStations_def)

lemma cookingStations_newDishSystem:
  "cookingStations newDishSystem =
     [(''prep'', prepStationConfig), (''grill'', grillStationConfig),
      (''fryer'', fryerStationConfig), (''stove'', stoveStationConfig)]"
  by (simp add: newDishSystem_def initializeDishes_def addDish_def
        initializeCookingStations_def)

lemma getTool_grill:
  "getTool newDishSystem ''grill'' =
     Some \<lparr>def_id = ''grill'', def_name = ''Grill'', def_type = ''cook'',
           def_color = ''#ffa500'', def_key = ''q'', def_className = ''tool-cook''\<rparr>"
  by (simp add: getTool_def newDishSystem_def initializeDishes_def addDish_def
        initializeCookingStations_def initializeTools_def addTool_def)

lemma getDish_new_burger:
  "getDish newDishSystem ''classic_burger'' = Some (freshDish ''classic_burger'' classicBurgerData)"
  by (simp add: getDish_def dishes_newDishSystem)

lemma getDish_new_caesar:
  "getDish newDishSystem ''caesar_salad'' = Some (freshDish ''caesar_salad'' caesarSaladData)"
  by (simp add: getDish_def dishes_newDishSystem)

lemma newGame_eq:
  "newGame =
     \<lparr>dishSystem = newDishSystem,
      cookingStationManager =
        \<lparr>stations =
           [(''prep'', newCookingStation ''prep'' prepStationConfig),
            (''grill'', newCookingStation ''grill'' grillStationConfig),
            (''fryer'', newCookingStation ''fryer'' fryerStationConfig),
            (''stove'', newCookingStation ''stove'' stoveStationConfig)],
         activeStation = None, currentDish = None\<rparr>,
      orderSystem = newOrderSystem\<rparr>"
  by (simp add: newGame_def newCookingStationManager_def initializeStations_def
        cookingStations_newDishSystem)

subsection \<open>Storing a dish\<close>

lemma getDish_putDish: "getDish (putDish ds i d) k = (if k = i then Some d else getDish ds k)"
  by (simp add: getDish_def putDish_def update_conv')

lemma putDish_frame [simp]:
  "getTool (putDish ds i d) = getTool ds"
  "getIngredient (putDish ds i d) = getIngredient ds"
  "getCookingStation (putDish ds i d) = getCookingStation ds"
  by (simp_all add: fun_eq_iff getTool_def getIngredient_def getCookingStation_def putDish_def)

lemma burgerWithBun_dish:
  "getDish burgerWithBun ''classic_burger'' = Some burgerWithBunDish"
  by (simp add: burgerWithBun_def burgerWithBunDish_def addIngredientToDish_def
        getDish_new_burger getDish_putDish freshDish_def classicBurgerData_def mkIng_def
        mkStep_def)

section \<open>Properties\<close>

subsection \<open>Order rating\<close>

text \<open>\<^verbatim>\<open>Math.random()\<close> returns a number from 0 up to but not including 1. The time limit of
  every order that \<^verbatim>\<open>spawnOrder\<close> creates for a dish of difficulty up to 1000 (the catalog
  has difficulties 2 and 3) lies between one millisecond and \<open>2 ^ 53\<close> milliseconds.\<close>

lemma spawnOrder_timeLimit_bounds:
  assumes sp: "spawnOrder ds os newId pick rnd now = Inr (Some order, os')"
    and rnd: "0 \<le> rnd" "rnd < 1"
    and diff: "difficulty (getAllDishes ds ! pick) \<le> 1000"
  shows "1 \<le> timeLimit order \<and> timeLimit order \<le> 2 ^ 53"
proof -
  define d :: rat where "d = of_nat (difficulty (getAllDishes ds ! pick)) * 10"
  define a where "a = toDouble d"
  define b where "b = toDouble (45 + a)"
  define c where "c = toDouble (rnd * 20)"
  define s where "s = toDouble (b + c)"
  have tl: "timeLimit order = toDouble (s * 1000)"
    using sp by (auto simp: spawnOrder_def Let_def newOrder_def s_def b_def c_def a_def d_def
        split: if_splits)
  have d: "0 \<le> d" "d \<le> 10000"
    using diff by (simp_all add: d_def)
  have a: "0 \<le> a" "a \<le> 20001"
  proof -
    show "0 \<le> a" unfolding a_def using d by (intro toDouble_nonneg)
    show "a \<le> 20001"
    proof (cases "d = 0")
      case True
      then show ?thesis by (simp add: a_def)
    next
      case False
      with d have "0 < d" by simp
      from toDouble_le [OF this] d show ?thesis by (simp add: a_def)
    qed
  qed
  have b: "45 / 2 \<le> b" "b \<le> 40093"
  proof -
    have "(45 + a) / 2 \<le> b" unfolding b_def using a by (intro toDouble_ge_half) simp
    with a show "45 / 2 \<le> b" by simp
    have "b \<le> 2 * (45 + a) + 1" unfolding b_def using a by (intro toDouble_le) simp
    with a show "b \<le> 40093" by simp
  qed
  have c: "0 \<le> c" "c \<le> 41"
  proof -
    show "0 \<le> c" unfolding c_def using rnd by (intro toDouble_nonneg) simp
    show "c \<le> 41"
    proof (cases "rnd = 0")
      case True
      then show ?thesis by (simp add: c_def)
    next
      case False
      with rnd have "0 < rnd * 20" by simp
      from toDouble_le [OF this] rnd show ?thesis by (simp add: c_def)
    qed
  qed
  have s: "45 / 4 \<le> s" "s \<le> 80269"
  proof -
    have "(b + c) / 2 \<le> s" unfolding s_def using b c by (intro toDouble_ge_half) simp
    with b c show "45 / 4 \<le> s" by simp
    have "s \<le> 2 * (b + c) + 1" unfolding s_def using b c by (intro toDouble_le) simp
    with b c show "s \<le> 80269" by simp
  qed
  have "s * 1000 / 2 \<le> toDouble (s * 1000)" using s by (intro toDouble_ge_half) simp
  moreover have "toDouble (s * 1000) \<le> 2 * (s * 1000) + 1" using s by (intro toDouble_le) simp
  ultimately show ?thesis using s by (simp add: tl)
qed









subsection \<open>Applying a tool\<close>

lemma useToolOnIngredients_none:
  "find (pendingStepMatches dish toolId) ings = None
     \<Longrightarrow> useToolOnIngredients ings dish toolId = None"
  by (induction ings) (auto simp: pendingStepMatches_def split: option.splits if_splits)

lemma useToolOnIngredients_some:
  "find (pendingStepMatches dish toolId) ings = Some ing
     \<Longrightarrow> \<exists>st. map_of (ingredientStates dish) (ing_id ing) = Some st
            \<and> useToolOnIngredients ings dish toolId =
                Some (dish\<lparr>ingredientStates := AList.update (ing_id ing)
                  (st\<lparr>prepStepsCompleted := prepStepsCompleted st + 1,
                      isReady := (length (prepSteps ing) \<le> prepStepsCompleted st + 1
                                  \<or> isReady st)\<rparr>)
                  (ingredientStates dish)\<rparr>)"
  by (induction ings) (auto simp: pendingStepMatches_def Let_def split: option.splits if_splits)

text \<open>
  C2. One call of \<^verbatim>\<open>useToolOnDish\<close> on an existing dish does exactly one of three
  things. If some ingredient of the recipe is added, not ready and has the tool as the
  action of its next pending prep step, the first such ingredient in recipe order
  advances by one step, and neither another ingredient nor the final-step counter
  changes. Otherwise, if the tool is the action of the current final step, the
  final-step counter advances by one and no ingredient changes. Otherwise the call
  returns \<^verbatim>\<open>false\<close> and the state is unchanged. Other dishes are never touched. So no
  counter is ever skipped or set back.
\<close>

theorem useToolOnDish_one_step:
  assumes dish: "getDish ds dishId = Some dish"
    and res: "useToolOnDish ds dishId toolId = (toolUsed, ds')"
  shows "(\<forall>k. k \<noteq> dishId \<longrightarrow> getDish ds' k = getDish ds k) \<and>
    (case find (pendingStepMatches dish toolId) (ingredients dish) of
       Some ing \<Rightarrow>
         toolUsed \<and>
         (\<exists>dish'. getDish ds' dishId = Some dish'
            \<and> stepsDone dish' (ing_id ing) = stepsDone dish (ing_id ing) + 1
            \<and> (\<forall>k. k \<noteq> ing_id ing \<longrightarrow>
                 map_of (ingredientStates dish') k = map_of (ingredientStates dish) k)
            \<and> finalStepsProgress dish' = finalStepsProgress dish)
     | None \<Rightarrow>
         if finalStepMatches dish toolId
         then toolUsed \<and>
              (\<exists>dish'. getDish ds' dishId = Some dish'
                 \<and> finalStepsProgress dish' = finalStepsProgress dish + 1
                 \<and> ingredientStates dish' = ingredientStates dish)
         else \<not> toolUsed \<and> ds' = ds)"
proof (cases "find (pendingStepMatches dish toolId) (ingredients dish)")
  case None
  then have "useToolOnIngredients (ingredients dish) dish toolId = None"
    by (rule useToolOnIngredients_none)
  with dish res None show ?thesis
    by (auto simp: useToolOnDish_def finalStepMatches_def Let_def getDish_putDish)
next
  case (Some ing)
  from useToolOnIngredients_some [OF Some] obtain st where
    st: "map_of (ingredientStates dish) (ing_id ing) = Some st" and
    u: "useToolOnIngredients (ingredients dish) dish toolId =
          Some (dish\<lparr>ingredientStates := AList.update (ing_id ing)
                  (st\<lparr>prepStepsCompleted := prepStepsCompleted st + 1,
                      isReady := (length (prepSteps ing) \<le> prepStepsCompleted st + 1
                                  \<or> isReady st)\<rparr>)
                  (ingredientStates dish)\<rparr>)"
    by blast
  with dish res Some show ?thesis
    by (auto simp: useToolOnDish_def getDish_putDish stepsDone_def update_conv')
qed

text \<open>Slicing the bun of the catalog's burger: the bun is the first ingredient with a
  matching pending step, and its counter goes from 0 to 1.\<close>

theorem useToolOnDish_one_step_witness:
  "getDish burgerWithBun ''classic_burger'' = Some burgerWithBunDish
   \<and> find (pendingStepMatches burgerWithBunDish ''slice'') (ingredients burgerWithBunDish)
       = Some (mkIng ''burger_bun'' True [mkStep ''slice'' ''Slice bun in half'' ''v''])
   \<and> stepsDone burgerWithBunDish ''burger_bun'' = 0
   \<and> fst (useToolOnDish burgerWithBun ''classic_burger'' ''slice'')
   \<and> (\<exists>dish'. getDish (snd (useToolOnDish burgerWithBun ''classic_burger'' ''slice''))
                  ''classic_burger'' = Some dish'
         \<and> stepsDone dish' ''burger_bun'' = 1
         \<and> finalStepsProgress dish' = finalStepsProgress burgerWithBunDish)"
proof -
  have f: "find (pendingStepMatches burgerWithBunDish ''slice'') (ingredients burgerWithBunDish)
       = Some (mkIng ''burger_bun'' True [mkStep ''slice'' ''Slice bun in half'' ''v''])"
    by (simp add: burgerWithBunDish_def freshDish_def classicBurgerData_def
          pendingStepMatches_def mkIng_def mkStep_def)
  have z: "stepsDone burgerWithBunDish ''burger_bun'' = 0"
    by (simp add: stepsDone_def burgerWithBunDish_def)
  have i: "ing_id (mkIng ''burger_bun'' True [mkStep ''slice'' ''Slice bun in half'' ''v''])
             = ''burger_bun''"
    by (simp add: mkIng_def)
  show ?thesis
    using useToolOnDish_one_step [OF burgerWithBun_dish surjective_pairing, of "''slice''"]
      burgerWithBun_dish
    by (auto simp: f z i)
qed

subsection \<open>Validity and serving\<close>

lemma requiredReady_iff:
  "requiredReady ings dish \<longleftrightarrow>
     (\<forall>ing \<in> set ings. ing_id ing \<in> currentIngredients dish
        \<and> (\<exists>st. map_of (ingredientStates dish) (ing_id ing) = Some st \<and> isReady st))"
  by (induction ings) (auto split: option.splits)

lemma getDish_new_pasta:
  "getDish newDishSystem ''pasta_marinara'' = Some (freshDish ''pasta_marinara'' pastaMarinaraData)"
  by (simp add: getDish_def dishes_newDishSystem)

lemma pastaReady_dish:
  "getDish pastaReady ''pasta_marinara'' = Some pastaReadyDish"
  by (simp add: pastaReady_def pastaReadyDish_def addIngredientToDish_def useToolOnDish_def
        getDish_new_pasta getDish_putDish freshDish_def pastaMarinaraData_def mkIng_def
        mkStep_def mkCookStep_def insert_commute)

text \<open>
  C8. \<^verbatim>\<open>isDishValid\<close> of an existing dish is true exactly when every required
  ingredient of the recipe is in the added set and has a state whose ready flag is set;
  ingredients that are not required do not occur in the condition. With an order
  selected, \<^verbatim>\<open>serveDish\<close> succeeds exactly when \<^verbatim>\<open>isDishValid\<close> holds for the order's
  dish, whatever \<^verbatim>\<open>isComplete\<close> is, and a failed serve changes nothing.
\<close>

theorem isDishValid_gate:
  "(getDish ds dishId = Some dish \<longrightarrow>
      (isDishValid ds dishId \<longleftrightarrow>
         (\<forall>ing \<in> set (ingredients dish). ing_required ing \<longrightarrow>
            ing_id ing \<in> currentIngredients dish
            \<and> (\<exists>st. map_of (ingredientStates dish) (ing_id ing) = Some st \<and> isReady st))))
   \<and> (getActiveOrder (orderSystem g) = Some order \<longrightarrow>
        (fst (game_serveDish g now) \<longleftrightarrow> isDishValid (dishSystem g) (order_dishId order))
        \<and> (\<not> isDishValid (dishSystem g) (order_dishId order) \<longrightarrow>
             snd (game_serveDish g now) = g))"
proof (intro conjI impI)
  assume "getDish ds dishId = Some dish"
  then show "isDishValid ds dishId \<longleftrightarrow>
         (\<forall>ing \<in> set (ingredients dish). ing_required ing \<longrightarrow>
            ing_id ing \<in> currentIngredients dish
            \<and> (\<exists>st. map_of (ingredientStates dish) (ing_id ing) = Some st \<and> isReady st))"
    by (auto simp: isDishValid_def requiredReady_iff)
next
  assume a: "getActiveOrder (orderSystem g) = Some order"
  then obtain k where k: "getActiveEntry (orderSystem g) = Some (k, order)"
    by (auto simp: getActiveOrder_def)
  show "fst (game_serveDish g now) \<longleftrightarrow> isDishValid (dishSystem g) (order_dishId order)"
    using k by (auto simp: game_serveDish_def isDishValid_def Let_def split: option.splits)
  show "snd (game_serveDish g now) = g" if "\<not> isDishValid (dishSystem g) (order_dishId order)"
    using k that by (auto simp: game_serveDish_def Let_def split: option.splits)
qed

text \<open>The boiled pasta with its sauce is valid though no final step is done, and serving
  it succeeds.\<close>

theorem isDishValid_gate_witness:
  "getDish pastaReady ''pasta_marinara'' = Some pastaReadyDish
   \<and> getActiveOrder (orderSystem pastaGame) = Some pastaOrder
   \<and> \<not> isComplete pastaReadyDish
   \<and> isDishValid pastaReady ''pasta_marinara''
   \<and> fst (game_serveDish pastaGame 1000)"
proof -
  have a: "getActiveOrder (orderSystem pastaGame) = Some pastaOrder"
    by (simp add: pastaGame_def getActiveOrder_def getActiveEntry_def pastaOrder_def)
  have v: "isDishValid pastaReady ''pasta_marinara''"
    by (simp add: isDishValid_def pastaReady_dish pastaReadyDish_def freshDish_def
          pastaMarinaraData_def mkIng_def)
  have c: "\<not> isComplete pastaReadyDish"
    by (simp add: pastaReadyDish_def freshDish_def)
  have d: "dishSystem pastaGame = pastaReady" "order_dishId pastaOrder = ''pasta_marinara''"
    by (simp_all add: pastaGame_def pastaOrder_def newOrder_def)
  show ?thesis
    using isDishValid_gate
        [of pastaReady "''pasta_marinara''" pastaReadyDish pastaGame pastaOrder 1000]
      a v c pastaReady_dish
    by (simp add: d)
qed

subsection \<open>Completing an order\<close>







subsection \<open>Sessions on the fresh game\<close>

lemmas catalog_eval =
  getAllDishes_def dishes_newDishSystem getDish_new_burger getDish_new_caesar getDish_putDish
  getTool_grill freshDish_def classicBurgerData_def caesarSaladData_def mkIng_def mkStep_def
  mkCookStep_def newCookingStation_def prepStationConfig_def grillStationConfig_def
  fryerStationConfig_def stoveStationConfig_def

lemmas order_eval =
  spawnOrder_def newOrderSystem_def newOrder_def selectOrder_def getActiveEntry_def
  getActiveOrder_def orderTimerFires_def expireOrder_def getRemainingTime_def order_complete_def
  toDouble_numeral

lemmas station_eval =
  setActiveDish_def setStationActive_def handleCookingAction_def getNextAvailableSlot_def
  findCookingTime_def addItem_def slotTimerFires_def cookingTimerFires_def getReadyItems_def
  removeCookedItem_def removeItem_def clearCurrentDish_def upt_conv_Cons

lemmas game_eval =
  run_def newGame_eq game_selectOrder_def game_addIngredient_def addIngredientToDish_def
  game_useTool_def useToolOnDish_def game_retrieveCookedItems_def Let_def

text \<open>Adding an ingredient and applying a tool keep the ready flag in step with the
  counter of completed prep steps, for a recipe whose ingredient ids are distinct.\<close>

lemma find_unique:
  "distinct (map f xs) \<Longrightarrow> find P xs = Some y \<Longrightarrow> x \<in> set xs \<Longrightarrow> f x = f y \<Longrightarrow> x = y"
proof -
  assume d: "distinct (map f xs)" and "find P xs = Some y" and x: "x \<in> set xs" and e: "f x = f y"
  then have "y \<in> set xs" by (auto simp: find_Some_iff)
  with d x e show "x = y" by (meson distinct_map inj_onD)
qed

lemma addIngredientToDish_keeps_ready:
  assumes d: "distinct (map ing_id (ingredients dish))"
    and g: "getDish ds dishId = Some dish"
    and inv: "readyMatchesSteps dish"
    and g': "getDish (snd (addIngredientToDish ds dishId ingredientId)) dishId = Some dish'"
  shows "readyMatchesSteps dish'"
proof (cases "fst (addIngredientToDish ds dishId ingredientId)")
  case False
  with g have "snd (addIngredientToDish ds dishId ingredientId) = ds"
    by (auto simp: addIngredientToDish_def split: option.splits)
  with g g' inv show ?thesis by simp
next
  case True
  with g obtain ingredient where
    f: "find (\<lambda>ing. ing_id ing = ingredientId) (ingredients dish) = Some ingredient"
    by (auto simp: addIngredientToDish_def split: option.splits)
  then have i: "ing_id ingredient = ingredientId" by (auto simp: find_Some_iff)
  from True g f g' have dish': "dish' =
      dish\<lparr>currentIngredients := insert ingredientId (currentIngredients dish),
           ingredientStates := AList.update ingredientId
             \<lparr>added = True, prepStepsCompleted = 0,
              isReady = (length (prepSteps ingredient) = 0)\<rparr> (ingredientStates dish)\<rparr>"
    by (auto simp: addIngredientToDish_def getDish_putDish split: option.splits if_splits)
  show ?thesis
    unfolding readyMatchesSteps_def
  proof (intro ballI allI impI)
    fix ing st
    assume m: "ing \<in> set (ingredients dish')"
      and s: "map_of (ingredientStates dish') (ing_id ing) = Some st"
    from m have m': "ing \<in> set (ingredients dish)" by (simp add: dish')
    show "isReady st \<longleftrightarrow> prepStepsCompleted st = length (prepSteps ing)"
    proof (cases "ing_id ing = ingredientId")
      case True
      with find_unique [OF d f m'] i have "ing = ingredient" by simp
      with s True show ?thesis by (auto simp: dish' update_conv')
    next
      case False
      with s have "map_of (ingredientStates dish) (ing_id ing) = Some st"
        by (simp add: dish' update_conv')
      with inv m' show ?thesis by (simp add: readyMatchesSteps_def)
    qed
  qed
qed

lemma useToolOnDish_keeps_ready:
  assumes d: "distinct (map ing_id (ingredients dish))"
    and g: "getDish ds dishId = Some dish"
    and inv: "readyMatchesSteps dish"
    and g': "getDish (snd (useToolOnDish ds dishId toolId)) dishId = Some dish'"
  shows "readyMatchesSteps dish'"
proof (cases "find (pendingStepMatches dish toolId) (ingredients dish)")
  case None
  then have "useToolOnIngredients (ingredients dish) dish toolId = None"
    by (rule useToolOnIngredients_none)
  with g g' have "ingredientStates dish' = ingredientStates dish \<and> ingredients dish' = ingredients dish"
    by (auto simp: useToolOnDish_def Let_def getDish_putDish split: if_splits)
  with inv show ?thesis by (simp add: readyMatchesSteps_def)
next
  case (Some ingredient)
  from useToolOnIngredients_some [OF Some] obtain st0 where
    st0: "map_of (ingredientStates dish) (ing_id ingredient) = Some st0" and
    u: "useToolOnIngredients (ingredients dish) dish toolId =
          Some (dish\<lparr>ingredientStates := AList.update (ing_id ingredient)
                  (st0\<lparr>prepStepsCompleted := prepStepsCompleted st0 + 1,
                      isReady := (length (prepSteps ingredient) \<le> prepStepsCompleted st0 + 1
                                  \<or> isReady st0)\<rparr>)
                  (ingredientStates dish)\<rparr>)"
    by blast
  from Some st0 have p: "\<not> isReady st0" "prepStepsCompleted st0 < length (prepSteps ingredient)"
    by (auto simp: find_Some_iff pendingStepMatches_def)
  from g g' u have dish': "dish' = dish\<lparr>ingredientStates := AList.update (ing_id ingredient)
                  (st0\<lparr>prepStepsCompleted := prepStepsCompleted st0 + 1,
                      isReady := (length (prepSteps ingredient) \<le> prepStepsCompleted st0 + 1
                                  \<or> isReady st0)\<rparr>)
                  (ingredientStates dish)\<rparr>"
    by (simp add: useToolOnDish_def getDish_putDish)
  show ?thesis
    unfolding readyMatchesSteps_def
  proof (intro ballI allI impI)
    fix ing st
    assume m: "ing \<in> set (ingredients dish')"
      and s: "map_of (ingredientStates dish') (ing_id ing) = Some st"
    from m have m': "ing \<in> set (ingredients dish)" by (simp add: dish')
    show "isReady st \<longleftrightarrow> prepStepsCompleted st = length (prepSteps ing)"
    proof (cases "ing_id ing = ing_id ingredient")
      case True
      with find_unique [OF d Some m'] have "ing = ingredient" by simp
      with s p show ?thesis by (auto simp: dish' update_conv')
    next
      case False
      with s have "map_of (ingredientStates dish) (ing_id ing) = Some st"
        by (simp add: dish' update_conv')
      with inv m' show ?thesis by (simp add: readyMatchesSteps_def)
    qed
  qed
qed

text \<open>
  C3. The ready flag of an added ingredient should hold exactly when its completed
  prep steps number as many as the recipe defines. Adding an ingredient and applying a
  tool keep this (the two lemmas above); retrieving cooked items does not. The salad's
  chicken has two prep steps, grill and slice. After the grill step its state is one
  step completed and not ready. Retrieving the grilled chicken from the station then
  sets the ready flag, with still one of two steps completed.
\<close>

theorem retrieveCookedItems_marks_ready_early:
  "map_option (\<lambda>d. map_of (ingredientStates d) ''chicken_breast'')
     (getDish (dishSystem (run newGame caesarRun)) ''caesar_salad'')
     = Some (Some \<lparr>added = True, prepStepsCompleted = 1, isReady = False\<rparr>)
   \<and> map_option (\<lambda>d. map_of (ingredientStates d) ''chicken_breast'')
     (getDish (dishSystem (run newGame (caesarRun @ [RetrieveCookedItems]))) ''caesar_salad'')
     = Some (Some \<lparr>added = True, prepStepsCompleted = 1, isReady = True\<rparr>)
   \<and> map_option (\<lambda>d. map (\<lambda>ing. length (prepSteps ing))
          (filter (\<lambda>ing. ing_id ing = ''chicken_breast'') (ingredients d)))
     (getDish (dishSystem (run newGame (caesarRun @ [RetrieveCookedItems]))) ''caesar_salad'')
     = Some [2]"
  by (simp add: caesarRun_def game_eval catalog_eval order_eval station_eval)

subsection \<open>Expiry and the score\<close>

text \<open>
  C5. In the burger session the order has no time left at 65000 ms, and its countdown
  timer then expires it: the order is rated failed, leaves \<^verbatim>\<open>activeOrders\<close>, joins
  \<^verbatim>\<open>completedOrders\<close>, and a score of \<open>-20\<close> is put on screen. The total score
  reported by \<^verbatim>\<open>getStats\<close> is 0 before and 0 after.
\<close>

theorem expireOrder_totalScore_unchanged:
  "map_option (\<lambda>order. getRemainingTime order 65000)
     (map_of (activeOrders (orderSystem (run newGame expiryRun))) ''o1'') = Some 0
   \<and> stats_totalScore (getStats (orderSystem (run newGame expiryRun))) = 0
   \<and> activeOrders (orderSystem (run newGame (expiryRun @ [OrderTimer ''o1'' 65000]))) = []
   \<and> map rating
        (completedOrders (orderSystem (run newGame (expiryRun @ [OrderTimer ''o1'' 65000]))))
       = [Some Failed]
   \<and> feedbackShown (orderSystem (run newGame (expiryRun @ [OrderTimer ''o1'' 65000])))
       = [(Some Failed, - 20)]
   \<and> stats_totalScore
        (getStats (orderSystem (run newGame (expiryRun @ [OrderTimer ''o1'' 65000])))) = 0"
  by (simp add: expiryRun_def game_eval catalog_eval order_eval station_eval getStats_def)

subsection \<open>Resetting the dish when an order ends\<close>

lemma resetDish_getDish:
  "getDish ds dishId = Some dish \<Longrightarrow>
     getDish (snd (resetDish ds dishId)) dishId =
       Some (dish\<lparr>currentIngredients := {}, ingredientStates := [],
                  finalStepsProgress := 0, isComplete := False\<rparr>)"
  by (simp add: resetDish_def getDish_putDish)

lemma serveDish_resets_dish:
  assumes "getActiveOrder (orderSystem g) = Some order"
    and "getDish (dishSystem g) (order_dishId order) = Some dish"
    and "fst (game_serveDish g now)"
  shows "getDish (dishSystem (snd (game_serveDish g now))) (order_dishId order) =
           Some (dish\<lparr>currentIngredients := {}, ingredientStates := [],
                      finalStepsProgress := 0, isComplete := False\<rparr>)"
  using assms
  by (auto simp: game_serveDish_def getActiveOrder_def Let_def resetDish_getDish
        split: option.splits if_splits)

lemma cancelCurrentDish_resets_dish:
  assumes "getActiveOrder (orderSystem g) = Some order"
    and "getDish (dishSystem g) (order_dishId order) = Some dish"
  shows "getDish (dishSystem (game_cancelCurrentDish g)) (order_dishId order) =
           Some (dish\<lparr>currentIngredients := {}, ingredientStates := [],
                      finalStepsProgress := 0, isComplete := False\<rparr>)"
  using assms
  by (auto simp: game_cancelCurrentDish_def getActiveOrder_def Let_def resetDish_getDish
        split: option.splits)

text \<open>
  C6. Serving and cancelling reset the dish of the selected order (the two lemmas
  above). Expiry does not: the selected burger order runs out of time at 65000 ms and
  leaves the active orders as failed, and the burger still has its bun added, with the
  bun's progress entry in place.
\<close>

theorem expireOrder_keeps_dish_state:
  "map_option order_id (getActiveOrder (orderSystem (run newGame expiryRun))) = Some ''o1''
   \<and> getActiveOrder (orderSystem (run newGame (expiryRun @ [OrderTimer ''o1'' 65000]))) = None
   \<and> map (\<lambda>order. (order_id order, rating order))
        (completedOrders (orderSystem (run newGame (expiryRun @ [OrderTimer ''o1'' 65000]))))
       = [(''o1'', Some Failed)]
   \<and> map_option (\<lambda>d. (currentIngredients d, ingredientStates d))
        (getDish (dishSystem (run newGame (expiryRun @ [OrderTimer ''o1'' 65000])))
           ''classic_burger'')
       = Some ({''burger_bun''},
               [(''burger_bun'', \<lparr>added = True, prepStepsCompleted = 0, isReady = False\<rparr>)])"
  by (simp add: expiryRun_def game_eval catalog_eval order_eval station_eval)

subsection \<open>The catalog during play\<close>

lemma update_same_recipe:
  "map_of al i = Some d \<Longrightarrow> recipeOf d' = recipeOf d \<Longrightarrow>
     map (\<lambda>(k, d). (k, recipeOf d)) (AList.update i d' al) = map (\<lambda>(k, d). (k, recipeOf d)) al"
  by (induction al) (auto split: if_splits)

lemma catalogOf_putDish:
  "getDish ds i = Some d \<Longrightarrow> recipeOf d' = recipeOf d \<Longrightarrow>
     catalogOf (putDish ds i d') = catalogOf ds"
  by (simp add: catalogOf_def putDish_def getDish_def update_same_recipe)

lemma recipeOf_useToolOnIngredients:
  "useToolOnIngredients ings dish toolId = Some dish' \<Longrightarrow> recipeOf dish' = recipeOf dish"
  by (induction ings) (auto simp: recipeOf_def Let_def split: option.splits if_splits)

lemma catalogOf_addIngredientToDish:
  "catalogOf (snd (addIngredientToDish ds dishId ingredientId)) = catalogOf ds"
  by (auto simp: addIngredientToDish_def catalogOf_putDish recipeOf_def split: option.splits)

lemma catalogOf_useToolOnDish:
  "catalogOf (snd (useToolOnDish ds dishId toolId)) = catalogOf ds"
  by (auto simp: useToolOnDish_def Let_def catalogOf_putDish recipeOf_def
        dest: recipeOf_useToolOnIngredients split: option.splits)

lemma catalogOf_resetDish:
  "catalogOf (snd (resetDish ds dishId)) = catalogOf ds"
  by (auto simp: resetDish_def catalogOf_putDish recipeOf_def split: option.splits)

lemma catalogOf_retrieveLoop:
  "catalogOf (dishSystem (snd (retrieveLoop items dishId (n, g)))) = catalogOf (dishSystem g)"
proof (induction items arbitrary: n g)
  case Nil
  then show ?case by simp
next
  case (Cons x items)
  obtain stationId slotIndex item where x: "x = (stationId, slotIndex, item)"
    by (cases x) auto
  show ?case
    unfolding x
    by (auto simp: Cons.IH Let_def catalogOf_putDish recipeOf_def split: option.splits prod.splits)
qed

lemma catalogOf_retrieveLoop_result:
  "retrieveLoop items dishId (n, g) = (m, g') \<Longrightarrow>
     catalogOf (dishSystem g') = catalogOf (dishSystem g)"
  using catalogOf_retrieveLoop [of items dishId n g] by simp

lemma catalogOf_fold_reset:
  "catalogOf (fold (\<lambda>dish ds. snd (resetDish ds (dish_id dish))) xs ds) = catalogOf ds"
  by (induction xs arbitrary: ds) (auto simp: catalogOf_resetDish)

lemma catalogOf_step: "catalogOf (dishSystem (step g e)) = catalogOf (dishSystem g)"
proof (cases e)
  case (SpawnOrder a b c d)
  then show ?thesis by (auto split: sum.splits)
next
  case (SelectOrder a)
  then show ?thesis by (auto simp: game_selectOrder_def split: prod.splits option.splits)
next
  case (AddIngredient a b)
  then show ?thesis
    using catalogOf_addIngredientToDish [of "dishSystem g" a b]
    by (auto simp: game_addIngredient_def split: prod.splits)
next
  case (UseTool a b c)
  then show ?thesis
    using catalogOf_useToolOnDish [of "dishSystem g" a b]
    by (auto simp: game_useTool_def Let_def split: prod.splits option.splits)
next
  case (ServeDish a)
  then show ?thesis
    by (auto simp: game_serveDish_def Let_def catalogOf_resetDish split: prod.splits option.splits)
next
  case CancelCurrentDish
  then show ?thesis
    by (auto simp: game_cancelCurrentDish_def Let_def catalogOf_resetDish split: prod.splits option.splits)
next
  case RetrieveCookedItems
  then show ?thesis
    by (auto simp: game_retrieveCookedItems_def Let_def
          dest: catalogOf_retrieveLoop_result split: prod.splits option.splits)
next
  case ResetGame
  then show ?thesis by (simp add: game_resetGame_def catalogOf_fold_reset)
next
  case (OrderTimer a b)
  then show ?thesis by simp
next
  case (SlotTimer a b)
  then show ?thesis by simp
qed

lemma catalogOf_run: "catalogOf (dishSystem (run g es)) = catalogOf (dishSystem g)"
  unfolding run_def by (induction es arbitrary: g) (simp_all add: catalogOf_step)

lemma map_of_recipes:
  "map_of (map (\<lambda>(k, d). (k, recipeOf d)) al) k = map_option recipeOf (map_of al k)"
  by (induction al) auto

text \<open>
  C4, as the code has it. Whatever happens in a game, the ingredient, tool and station
  tables stay as they were, and so do the recipe fields of every dish (id, name,
  station, colour, ingredient entries with their prep steps, final steps, difficulty,
  prep time) and the order of the dishes. The objects that \<^verbatim>\<open>getDish\<close> and
  \<^verbatim>\<open>getAllDishes\<close> return also hold the cooking state of the dish, which play changes.
\<close>

theorem recipe_data_never_changes:
  "getIngredient (dishSystem (run g es)) = getIngredient (dishSystem g)
   \<and> getTool (dishSystem (run g es)) = getTool (dishSystem g)
   \<and> getCookingStation (dishSystem (run g es)) = getCookingStation (dishSystem g)
   \<and> map_option recipeOf (getDish (dishSystem (run g es)) dishId)
       = map_option recipeOf (getDish (dishSystem g) dishId)
   \<and> map recipeOf (getAllDishes (dishSystem (run g es)))
       = map recipeOf (getAllDishes (dishSystem g))"
proof -
  have c: "catalogOf (dishSystem (run g es)) = catalogOf (dishSystem g)"
    by (rule catalogOf_run)
  then have d: "map (\<lambda>(k, d). (k, recipeOf d)) (dishes (dishSystem (run g es)))
             = map (\<lambda>(k, d). (k, recipeOf d)) (dishes (dishSystem g))"
    by (simp add: catalogOf_def)
  have "map_of (map (\<lambda>(k, d). (k, recipeOf d)) (dishes (dishSystem (run g es)))) dishId
      = map_of (map (\<lambda>(k, d). (k, recipeOf d)) (dishes (dishSystem g))) dishId"
    by (simp only: d)
  then have e: "map_option recipeOf (getDish (dishSystem (run g es)) dishId)
       = map_option recipeOf (getDish (dishSystem g) dishId)"
    by (simp add: map_of_recipes getDish_def)
  have "map snd (map (\<lambda>(k, d). (k, recipeOf d)) (dishes (dishSystem (run g es))))
      = map snd (map (\<lambda>(k, d). (k, recipeOf d)) (dishes (dishSystem g)))"
    by (simp only: d)
  then have f: "map recipeOf (getAllDishes (dishSystem (run g es)))
       = map recipeOf (getAllDishes (dishSystem g))"
    by (simp add: getAllDishes_def comp_def case_prod_unfold)
  from c e f show ?thesis
    by (simp add: catalogOf_def fun_eq_iff getIngredient_def getTool_def getCookingStation_def)
qed



text \<open>The session with the Caesar salad, which adds an ingredient, applies a tool and
  starts a cooking job, leaves all of this as it was in the fresh game.\<close>

theorem recipe_data_never_changes_witness:
  "getIngredient (dishSystem (run newGame caesarRun)) = getIngredient (dishSystem newGame)
   \<and> getTool (dishSystem (run newGame caesarRun)) = getTool (dishSystem newGame)
   \<and> getCookingStation (dishSystem (run newGame caesarRun))
       = getCookingStation (dishSystem newGame)
   \<and> map_option recipeOf (getDish (dishSystem (run newGame caesarRun)) ''caesar_salad'')
       = map_option recipeOf (getDish (dishSystem newGame) ''caesar_salad'')
   \<and> map recipeOf (getAllDishes (dishSystem (run newGame caesarRun)))
       = map recipeOf (getAllDishes (dishSystem newGame))"
  by (rule recipe_data_never_changes)

text \<open>Adding the bun to the burger changes what \<^verbatim>\<open>getDish\<close> and \<^verbatim>\<open>getAllDishes\<close>
  return.\<close>

theorem getDish_changes_counterexample:
  "getDish (dishSystem (run newGame [AddIngredient ''classic_burger'' ''burger_bun'']))
     ''classic_burger'' \<noteq> getDish (dishSystem newGame) ''classic_burger''
   \<and> getAllDishes (dishSystem (run newGame [AddIngredient ''classic_burger'' ''burger_bun'']))
       \<noteq> getAllDishes (dishSystem newGame)"
proof -
  let ?ds = "dishSystem (run newGame [AddIngredient ''classic_burger'' ''burger_bun''])"
  have a: "map_option currentIngredients (getDish ?ds ''classic_burger'') = Some {''burger_bun''}"
    by (simp add: game_eval catalog_eval)
  have b: "map_option currentIngredients (getDish (dishSystem newGame) ''classic_burger'')
             = Some {}"
    by (simp add: newGame_eq catalog_eval)
  have c: "map currentIngredients (getAllDishes ?ds) = [{''burger_bun''}, {}, {}, {}, {}]"
    by (simp add: game_eval catalog_eval putDish_def)
  have d: "map currentIngredients (getAllDishes (dishSystem newGame)) = [{}, {}, {}, {}, {}]"
    by (simp add: newGame_eq catalog_eval)
  have "getDish ?ds ''classic_burger'' \<noteq> getDish (dishSystem newGame) ''classic_burger''"
  proof
    assume "getDish ?ds ''classic_burger'' = getDish (dishSystem newGame) ''classic_burger''"
    then have "map_option currentIngredients (getDish ?ds ''classic_burger'')
        = map_option currentIngredients (getDish (dishSystem newGame) ''classic_burger'')"
      by (rule arg_cong)
    then show False
      unfolding a b by simp
  qed
  moreover have "getAllDishes ?ds \<noteq> getAllDishes (dishSystem newGame)"
  proof
    assume "getAllDishes ?ds = getAllDishes (dishSystem newGame)"
    then have "map currentIngredients (getAllDishes ?ds)
        = map currentIngredients (getAllDishes (dishSystem newGame))"
      by (rule arg_cong)
    then show False
      unfolding c d by simp
  qed
  ultimately show ?thesis by simp
qed

subsection \<open>At most one selected order\<close>

lemma activeCount_alt:
  "activeCount os = length (filter (isActive \<circ> snd) (activeOrders os))"
  by (simp add: activeCount_def)

lemma count_update_inactive:
  "\<not> P v \<Longrightarrow>
     length (filter (P \<circ> snd) (AList.update k v al)) \<le> length (filter (P \<circ> snd) al)"
  by (induction al) auto

lemma count_delete:
  "length (filter (P \<circ> snd) (AList.delete k al)) \<le> length (filter (P \<circ> snd) al)"
  by (induction al) auto

lemma find_none_count:
  "find (\<lambda>(k, v). P v) al = None \<Longrightarrow> filter (P \<circ> snd) al = []"
  by (induction al) (auto split: if_splits)

lemma find_key_in: "find Q al = Some (k, v) \<Longrightarrow> k \<in> fst ` set al"
  by (induction al) (auto split: if_splits)

lemma demote_found:
  "distinct (map fst al) \<Longrightarrow> find (\<lambda>(k, v). P v) al = Some (k, v) \<Longrightarrow>
     length (filter (P \<circ> snd) al) \<le> 1 \<Longrightarrow> \<not> P v' \<Longrightarrow>
     filter (P \<circ> snd) (AList.update k v' al) = []"
proof (induction al)
  case Nil
  then show ?case by simp
next
  case (Cons p al)
  obtain k0 v0 where p: "p = (k0, v0)" by (cases p) auto
  show ?case
  proof (cases "P v0")
    case True
    with Cons.prems p show ?thesis by auto
  next
    case False
    with Cons.prems p have f: "find (\<lambda>(k, v). P v) al = Some (k, v)" by simp
    then have "k \<in> fst ` set al" by (rule find_key_in)
    with Cons.prems p have "k \<noteq> k0" by auto
    with Cons.IH f Cons.prems p False show ?thesis by auto
  qed
qed

lemma count_update_none:
  "filter (P \<circ> snd) al = [] \<Longrightarrow> length (filter (P \<circ> snd) (AList.update k v al)) \<le> 1"
  by (induction al) (auto split: if_splits)

lemma count_update_active:
  "filter (P \<circ> snd) al = [] \<Longrightarrow> P v \<Longrightarrow>
     length (filter (P \<circ> snd) (AList.update k v al)) = 1"
  by (induction al) (auto split: if_splits)

lemma only_one_key:
  "distinct (map fst al) \<Longrightarrow> length (filter (P \<circ> snd) al) \<le> 1 \<Longrightarrow>
     map_of al k = Some v \<Longrightarrow> P v \<Longrightarrow> map_of al k' = Some v' \<Longrightarrow> P v' \<Longrightarrow> k = k'"
proof (induction al)
  case Nil
  then show ?case by simp
next
  case (Cons p al)
  obtain k0 v0 where p: "p = (k0, v0)" by (cases p) auto
  have none: "P v0 \<Longrightarrow> map_of al j = Some w \<Longrightarrow> \<not> P w" for j w
  proof -
    assume a: "P v0" and m: "map_of al j = Some w"
    from Cons.prems(2) p a have "\<forall>x \<in> set al. \<not> P (snd x)"
      by (auto simp: filter_empty_conv)
    moreover from m have "(j, w) \<in> set al"
      by (rule map_of_SomeD)
    ultimately show "\<not> P w" by force
  qed
  show ?case
  proof (cases "k = k0")
    case True
    show ?thesis
    proof (cases "k' = k0")
      case True
      with \<open>k = k0\<close> show ?thesis by simp
    next
      case False
      with Cons.prems p True none [of k' v'] show ?thesis by auto
    qed
  next
    case False
    show ?thesis
    proof (cases "k' = k0")
      case True
      with Cons.prems p False none [of k v] show ?thesis by auto
    next
      case k': False
      with Cons.prems p False Cons.IH show ?thesis by (auto split: if_splits)
    qed
  qed
qed

lemma selectOrder_result:
  assumes ok: "ordersOk os" and sel: "selectOrder os orderId = (Some order, os')"
  shows "ordersOk os' \<and> activeCount os' = 1 \<and> isActive order
         \<and> map_of (activeOrders os') orderId = Some order"
proof -
  from sel obtain o0 where o0: "map_of (activeOrders os) orderId = Some o0"
    by (auto simp: selectOrder_def split: option.splits)
  define al1 where "al1 = (case getActiveEntry os of
                        None \<Rightarrow> activeOrders os
                      | Some (k, previousActive) \<Rightarrow>
                          AList.update k (previousActive\<lparr>isActive := False\<rparr>) (activeOrders os))"
  have d1: "distinct (map fst al1)"
    using ok by (auto simp: al1_def ordersOk_def distinct_update split: option.splits)
  have z1: "filter (isActive \<circ> snd) al1 = []"
  proof (cases "getActiveEntry os")
    case None
    then show ?thesis
      using find_none_count [of isActive "activeOrders os"]
      by (simp add: al1_def getActiveEntry_def)
  next
    case (Some kv)
    obtain k v where kv: "kv = (k, v)" by (cases kv) auto
    with Some have "find (\<lambda>(k, v). isActive v) (activeOrders os) = Some (k, v)"
      by (simp add: getActiveEntry_def)
    from demote_found [OF _ this, of "v\<lparr>isActive := False\<rparr>"] ok
    show ?thesis by (simp add: al1_def Some kv ordersOk_def activeCount_alt)
  qed
  have dom1: "map_of al1 orderId \<noteq> None"
    using o0 by (auto simp: al1_def update_conv' split: option.splits)
  then obtain o1 where o1: "map_of al1 orderId = Some o1" by auto
  have os1: "(case getActiveEntry os of
                        None \<Rightarrow> os
                      | Some (k, previousActive) \<Rightarrow>
                          os\<lparr>activeOrders := AList.update k
                               (previousActive\<lparr>isActive := False\<rparr>) (activeOrders os)\<rparr>)
             = os\<lparr>activeOrders := al1\<rparr>"
    by (auto simp: al1_def split: option.splits)
  from sel o0 o1 have res: "order = o1\<lparr>isActive := True\<rparr>"
      "os' = os\<lparr>activeOrders := AList.update orderId (o1\<lparr>isActive := True\<rparr>) al1\<rparr>"
    by (auto simp: selectOrder_def os1 Let_def)
  have c: "activeCount os' = 1"
    using count_update_active [OF z1, of "o1\<lparr>isActive := True\<rparr>" orderId]
    by (simp add: res activeCount_alt)
  show ?thesis
    using c d1 by (simp add: ordersOk_def res distinct_update update_conv')
qed

lemma ordersOk_selectOrder: "ordersOk os \<Longrightarrow> ordersOk (snd (selectOrder os orderId))"
proof -
  assume ok: "ordersOk os"
  show ?thesis
  proof (cases "fst (selectOrder os orderId)")
    case None
    then have "snd (selectOrder os orderId) = os"
      by (auto simp: selectOrder_def Let_def update_conv' split: option.splits prod.splits)
    with ok show ?thesis by simp
  next
    case (Some order)
    then have "selectOrder os orderId = (Some order, snd (selectOrder os orderId))"
      by (metis prod.collapse)
    from selectOrder_result [OF ok this] show ?thesis by simp
  qed
qed

lemma ordersOk_spawnOrder:
  assumes ok: "ordersOk os" and sp: "spawnOrder ds os newId pick rnd now = Inr (r, os')"
  shows "ordersOk os'"
proof -
  define order where "order = newOrder newId (dish_id (getAllDishes ds ! pick))
    (dish_name (getAllDishes ds ! pick))
    (toDouble (toDouble (45 + toDouble (of_nat (difficulty (getAllDishes ds ! pick)) * 10))
       + toDouble (rnd * 20))) now"
  have n: "\<not> isActive order"
    by (simp add: order_def newOrder_def)
  from sp consider "os' = os"
    | "os' = os\<lparr>activeOrders := AList.update newId order (activeOrders os)\<rparr>"
    unfolding spawnOrder_def Let_def order_def by (auto split: if_splits)
  then show ?thesis
  proof cases
    case 1
    with ok show ?thesis by simp
  next
    case 2
    from count_update_inactive [of "isActive" order newId "activeOrders os"] n ok
    show ?thesis
      by (simp add: 2 ordersOk_def activeCount_alt distinct_update)
  qed
qed

lemma ordersOk_completeOrder: "ordersOk os \<Longrightarrow> ordersOk (snd (completeOrder os orderId v now))"
  using count_delete [of isActive orderId "activeOrders os"]
  by (auto simp: completeOrder_def Let_def ordersOk_def activeCount_alt distinct_delete
        split: option.splits prod.splits)

lemma ordersOk_expireOrder: "ordersOk os \<Longrightarrow> ordersOk (snd (expireOrder os orderId))"
  using count_delete [of isActive orderId "activeOrders os"]
  by (auto simp: expireOrder_def Let_def ordersOk_def activeCount_alt distinct_delete
        split: option.splits)

lemma ordersOk_step: "ordersOk (orderSystem g) \<Longrightarrow> ordersOk (orderSystem (step g e))"
proof (cases e)
  case (SpawnOrder a b c d)
  assume "ordersOk (orderSystem g)"
  with SpawnOrder show ?thesis
    by (auto split: sum.splits dest: ordersOk_spawnOrder)
next
  case (SelectOrder a)
  assume "ordersOk (orderSystem g)"
  with SelectOrder ordersOk_selectOrder [of "orderSystem g" a] show ?thesis
    by (auto simp: game_selectOrder_def split: prod.splits option.splits)
next
  case (AddIngredient a b)
  assume "ordersOk (orderSystem g)"
  with AddIngredient show ?thesis
    by (auto simp: game_addIngredient_def split: prod.splits)
next
  case (UseTool a b c)
  assume "ordersOk (orderSystem g)"
  with UseTool show ?thesis
    by (auto simp: game_useTool_def Let_def split: prod.splits option.splits)
next
  case (ServeDish a)
  assume "ordersOk (orderSystem g)"
  with ServeDish show ?thesis
    by (auto simp: game_serveDish_def Let_def ordersOk_completeOrder split: option.splits)
next
  case CancelCurrentDish
  assume ok: "ordersOk (orderSystem g)"
  show ?thesis
  proof (cases "getActiveEntry (orderSystem g)")
    case None
    with ok CancelCurrentDish show ?thesis by (simp add: game_cancelCurrentDish_def)
  next
    case (Some kv)
    obtain k v where kv: "kv = (k, v)" by (cases kv) auto
    from count_update_inactive [of isActive "v\<lparr>isActive := False\<rparr>" k "activeOrders (orderSystem g)"]
    show ?thesis
      using ok CancelCurrentDish Some kv
      by (auto simp: game_cancelCurrentDish_def Let_def ordersOk_def activeCount_alt distinct_update)
  qed
next
  case RetrieveCookedItems
  have r: "orderSystem (snd (retrieveLoop items d (n, g'))) = orderSystem g'" for items d n g'
    by (induction items arbitrary: n g')
       (auto simp: Let_def split: option.splits prod.splits)
  have r': "retrieveLoop items d (n, g') = (m, g'') \<Longrightarrow> orderSystem g'' = orderSystem g'"
    for items d n g' m g''
    using r [of items d n g'] by simp
  assume "ordersOk (orderSystem g)"
  with RetrieveCookedItems show ?thesis
    by (auto simp: game_retrieveCookedItems_def Let_def dest: r' split: option.splits prod.splits)
next
  case ResetGame
  then show ?thesis
    by (simp add: game_resetGame_def clearAllOrders_def ordersOk_def activeCount_alt)
next
  case (OrderTimer a b)
  assume "ordersOk (orderSystem g)"
  with OrderTimer show ?thesis
    by (auto simp: orderTimerFires_def ordersOk_expireOrder split: option.splits)
next
  case (SlotTimer a b)
  assume "ordersOk (orderSystem g)"
  with SlotTimer show ?thesis by simp
qed

lemma ordersOk_run: "ordersOk (orderSystem g) \<Longrightarrow> ordersOk (orderSystem (run g es))"
  unfolding run_def by (induction es arbitrary: g) (simp_all add: ordersOk_step)

lemma ordersOk_newGame: "ordersOk (orderSystem newGame)"
  by (simp add: newGame_def newOrderSystem_def ordersOk_def activeCount_alt)


text \<open>
  C10. In every state a game can reach, at most one of the orders in \<^verbatim>\<open>activeOrders\<close>
  is selected. (A completed or expired order has left \<^verbatim>\<open>activeOrders\<close>; its flag is
  not cleared, and nothing reads it any more.) Selecting an order in a state with at
  most one selected order demotes the one selected before: afterwards exactly one order
  is selected, and it is the order that was asked for.
\<close>

theorem at_most_one_active_order:
  "distinct (map fst (activeOrders (orderSystem (run newGame es))))
   \<and> activeCount (orderSystem (run newGame es)) \<le> 1
   \<and> (distinct (map fst (activeOrders os)) \<and> activeCount os \<le> 1
        \<and> selectOrder os orderId = (Some order, os') \<longrightarrow>
          distinct (map fst (activeOrders os')) \<and> activeCount os' = 1
          \<and> isActive order \<and> map_of (activeOrders os') orderId = Some order
          \<and> (\<forall>k ord. map_of (activeOrders os') k = Some ord \<and> isActive ord \<longrightarrow> k = orderId))"
proof (intro conjI impI)
  from ordersOk_run [OF ordersOk_newGame, of es]
  show "distinct (map fst (activeOrders (orderSystem (run newGame es))))"
    and "activeCount (orderSystem (run newGame es)) \<le> 1"
    by (simp_all add: ordersOk_def)
next
  assume a: "distinct (map fst (activeOrders os)) \<and> activeCount os \<le> 1
        \<and> selectOrder os orderId = (Some order, os')"
  then have ok: "ordersOk os" by (simp add: ordersOk_def)
  from a have sel: "selectOrder os orderId = (Some order, os')" by simp
  from selectOrder_result [OF ok sel]
  have r: "ordersOk os'" "activeCount os' = 1" "isActive order"
    "map_of (activeOrders os') orderId = Some order"
    by simp_all
  then show "distinct (map fst (activeOrders os'))" "activeCount os' = 1" "isActive order"
    "map_of (activeOrders os') orderId = Some order"
    by (simp_all add: ordersOk_def)
  show "\<forall>k ord. map_of (activeOrders os') k = Some ord \<and> isActive ord \<longrightarrow> k = orderId"
  proof (intro allI impI)
    fix k ord
    assume h: "map_of (activeOrders os') k = Some ord \<and> isActive ord"
    from r(1) have d: "distinct (map fst (activeOrders os'))"
      and c: "length (filter (isActive \<circ> snd) (activeOrders os')) \<le> 1"
      by (simp_all add: ordersOk_def activeCount_alt)
    from only_one_key [OF d c conjunct1 [OF h] conjunct2 [OF h] r(4) r(3)]
    show "k = orderId" .
  qed
qed


text \<open>With the second of two orders selected, selecting the first leaves only the
  first selected.\<close>

theorem at_most_one_active_order_witness:
  "distinct (map fst (activeOrders (orderSystem (run newGame expiryRun))))
   \<and> activeCount (orderSystem (run newGame expiryRun)) \<le> 1
   \<and> distinct (map fst (activeOrders twoOrders)) \<and> activeCount twoOrders \<le> 1
   \<and> map_option order_id (getActiveOrder twoOrders) = Some ''o2''
   \<and> selectOrder twoOrders ''o1''
       = (Some (sampleOrder\<lparr>isActive := True\<rparr>), snd (selectOrder twoOrders ''o1''))
   \<and> activeCount (snd (selectOrder twoOrders ''o1'')) = 1
   \<and> map_of (activeOrders (snd (selectOrder twoOrders ''o1''))) ''o1''
       = Some (sampleOrder\<lparr>isActive := True\<rparr>)"
proof -
  have d: "distinct (map fst (activeOrders twoOrders))"
    by (simp add: twoOrders_def)
  have c: "activeCount twoOrders \<le> 1"
    by (simp add: twoOrders_def activeCount_def sampleOrder_def pastaOrder_def newOrder_def)
  have a: "map_option order_id (getActiveOrder twoOrders) = Some ''o2''"
    by (simp add: twoOrders_def getActiveOrder_def getActiveEntry_def sampleOrder_def
          pastaOrder_def newOrder_def)
  have f: "fst (selectOrder twoOrders ''o1'') = Some (sampleOrder\<lparr>isActive := True\<rparr>)"
    by (simp add: twoOrders_def selectOrder_def getActiveEntry_def sampleOrder_def
          pastaOrder_def newOrder_def Let_def)
  have s: "selectOrder twoOrders ''o1''
       = (Some (sampleOrder\<lparr>isActive := True\<rparr>), snd (selectOrder twoOrders ''o1''))"
    using f by (metis prod.collapse)
  show ?thesis
    using at_most_one_active_order
      [where es = expiryRun and os = twoOrders and orderId = "''o1''"
         and order = "sampleOrder\<lparr>isActive := True\<rparr>"
         and os' = "snd (selectOrder twoOrders ''o1'')"] d c a s
    by simp
qed

subsection \<open>Station capacity\<close>

lemma set_update_subset: "set (AList.update k v al) \<subseteq> insert (k, v) (set al)"
  by (induction al) auto

lemma stationsOk_update:
  "stationsOk mgr \<Longrightarrow> stationOk st' \<Longrightarrow>
     stationsOk (mgr\<lparr>stations := AList.update k st' (stations mgr)\<rparr>)"
  using set_update_subset [of k st' "stations mgr"]
  by (fastforce simp: stationsOk_def)

lemma stationsOk_lookup:
  "stationsOk mgr \<Longrightarrow> map_of (stations mgr) k = Some st \<Longrightarrow> stationOk st"
  by (force simp: stationsOk_def dest: map_of_SomeD)

lemma stationOk_bounds:
  assumes "stationOk st"
  shows "length (currentItems st) \<le> cookingSlots st"
proof -
  from assms have d: "distinct (map fst (currentItems st))"
    and s: "fst ` set (currentItems st) \<subseteq> {..<cookingSlots st}"
    by (auto simp: stationOk_def)
  have "length (currentItems st) = card (fst ` set (currentItems st))"
    using d by (metis distinct_card length_map set_map)
  also have "\<dots> \<le> card {..<cookingSlots st}"
    using s by (intro card_mono) auto
  finally show ?thesis by simp
qed

lemma getNextAvailableSlot_Some:
  "getNextAvailableSlot st = Some i \<Longrightarrow>
     i < cookingSlots st \<and> map_of (currentItems st) i = None"
  by (auto simp: getNextAvailableSlot_def find_Some_iff)

lemma getNextAvailableSlot_None:
  "getNextAvailableSlot st = None \<longleftrightarrow> stationFull st"
  by (auto simp: getNextAvailableSlot_def find_None_iff stationFull_def map_of_eq_None_iff)

lemma stationOk_addItem:
  assumes ok: "stationOk st" and cap: "1 < cookingSlots st"
    and slot: "getNextAvailableSlot st = Some i"
  shows "stationOk (snd (addItem st i nm act ingr ct now))"
  using ok cap getNextAvailableSlot_Some [OF slot]
  by (auto simp: addItem_def stationOk_def distinct_update dom_update)

lemma stationOk_cookingTimerFires: "stationOk st \<Longrightarrow> stationOk (cookingTimerFires st i)"
proof (cases "map_of (currentItems st) i")
  case None
  assume "stationOk st"
  with None show ?thesis by (simp add: cookingTimerFires_def)
next
  case (Some item)
  assume ok: "stationOk st"
  from Some have "i \<in> fst ` set (currentItems st)"
    by (rule map_of_SomeD [THEN rev_image_eqI]) simp
  then have "fst ` set (AList.update i (item\<lparr>item_isReady := True\<rparr>) (currentItems st))
               = fst ` set (currentItems st)"
    by (auto simp: dom_update)
  with ok Some show ?thesis
    unfolding cookingTimerFires_def stationOk_def
    by (simp add: distinct_update)
qed

lemma set_delete_subset: "set (AList.delete k al) \<subseteq> set al"
  by (auto simp: AList.delete_eq)

lemma stationOk_removeItem: "stationOk st \<Longrightarrow> stationOk (snd (removeItem st i))"
  using set_delete_subset [of i "currentItems st"]
  unfolding removeItem_def stationOk_def
  by (auto simp: distinct_delete)

lemma stationOk_isActive: "stationOk st \<Longrightarrow> stationOk (st\<lparr>station_isActive := b\<rparr>)"
  by (simp add: stationOk_def)

lemma stationsOk_setStationActive:
  assumes ok: "stationsOk mgr"
  shows "stationsOk (setStationActive mgr k b)"
proof (cases "map_of (stations mgr) k")
  case None
  with ok show ?thesis by (simp add: setStationActive_def)
next
  case (Some st)
  from stationsOk_update [OF ok stationOk_isActive [OF stationsOk_lookup [OF ok Some]]]
  show ?thesis by (simp add: setStationActive_def Some)
qed

lemma stationsOk_fields [simp]:
  "stationsOk (mgr\<lparr>currentDish := d\<rparr>) = stationsOk mgr"
  "stationsOk (mgr\<lparr>activeStation := a\<rparr>) = stationsOk mgr"
  by (simp_all add: stationsOk_def)

lemma stationsOk_setActiveDish:
  "stationsOk mgr \<Longrightarrow> stationsOk (snd (setActiveDish ds mgr dishId stationId))"
  by (simp add: setActiveDish_def Let_def stationsOk_setStationActive
        split: option.splits)

lemma stationsOk_clearCurrentDish: "stationsOk mgr \<Longrightarrow> stationsOk (clearCurrentDish mgr)"
  by (simp add: clearCurrentDish_def Let_def stationsOk_setStationActive split: option.splits)

lemma stationsOk_slotTimerFires:
  assumes ok: "stationsOk mgr"
  shows "stationsOk (slotTimerFires mgr k i)"
proof (cases "map_of (stations mgr) k")
  case None
  with ok show ?thesis by (simp add: slotTimerFires_def)
next
  case (Some st)
  from stationsOk_update [OF ok stationOk_cookingTimerFires [OF stationsOk_lookup [OF ok Some]]]
  show ?thesis by (simp add: slotTimerFires_def Some)
qed

lemma removeCookedItem_cases:
  assumes "removeCookedItem mgr k i = (r, mgr')"
  obtains (unchanged) "r = None" "mgr' = mgr"
  | (removed) st item where "map_of (stations mgr) k = Some st"
      "map_of (currentItems st) i = Some item" "item_isReady item" "r = Some item"
      "mgr' = mgr\<lparr>stations := AList.update k (snd (removeItem st i)) (stations mgr)\<rparr>"
  using assms
  by (auto simp: removeCookedItem_def removeItem_def split: option.splits if_splits)

lemma stationsOk_removeCookedItem:
  assumes ok: "stationsOk mgr"
  shows "stationsOk (snd (removeCookedItem mgr k i))"
proof -
  obtain r mgr' where e: "removeCookedItem mgr k i = (r, mgr')"
    by (cases "removeCookedItem mgr k i") auto
  from e show ?thesis
  proof (cases rule: removeCookedItem_cases)
    case unchanged
    with ok e show ?thesis by simp
  next
    case (removed st item)
    from stationsOk_update [OF ok stationOk_removeItem [OF stationsOk_lookup [OF ok removed(1)]]]
    show ?thesis by (simp add: e removed(5))
  qed
qed

lemma handleCookingAction_cases:
  assumes h: "handleCookingAction ds mgr act ingr now = (r, mgr')"
  obtains (unchanged) "mgr' = mgr"
  | (added) sid st i nm ct where "activeStation mgr = Some sid"
      "map_of (stations mgr) sid = Some st" "1 < cookingSlots st"
      "getNextAvailableSlot st = Some i"
      "mgr' = mgr\<lparr>stations := AList.update sid (snd (addItem st i nm act ingr ct now))
                                   (stations mgr)\<rparr>"
proof (cases "mgr' = mgr")
  case True
  then show ?thesis by (rule unchanged)
next
  case False
  with h obtain sid st dishId dish i where f:
    "activeStation mgr = Some sid" "map_of (stations mgr) sid = Some st"
    "currentDish mgr = Some dishId" "dishId \<noteq> []" "getDish ds dishId = Some dish"
    "act \<in> set (allowedActions st)" "1 < cookingSlots st" "getNextAvailableSlot st = Some i"
    by (auto simp: handleCookingAction_def Let_def split: option.splits if_splits prod.splits)
  from h f have m: "mgr' = mgr\<lparr>stations := AList.update sid
      (snd (addItem st i (case getIngredient ds ingr of None \<Rightarrow> ingr | Some d \<Rightarrow> def_name d)
              act ingr (findCookingTime dish act ingr) now)) (stations mgr)\<rparr>"
    by (simp add: handleCookingAction_def Let_def split: prod.splits)
  show ?thesis by (rule added [OF f(1) f(2) f(7) f(8) m])
qed

lemma stationsOk_handleCookingAction:
  assumes ok: "stationsOk mgr"
  shows "stationsOk (snd (handleCookingAction ds mgr act ingr now))"
proof -
  obtain r mgr' where e: "handleCookingAction ds mgr act ingr now = (r, mgr')"
    by (cases "handleCookingAction ds mgr act ingr now") auto
  from e show ?thesis
  proof (cases rule: handleCookingAction_cases)
    case unchanged
    with ok e show ?thesis by simp
  next
    case (added sid st i nm ct)
    from stationsOk_update
      [OF ok stationOk_addItem [OF stationsOk_lookup [OF ok added(2)] added(3) added(4)]]
    show ?thesis by (simp add: e added(5))
  qed
qed


lemma stationsOk_retrieveLoop:
  "stationsOk (cookingStationManager g) \<Longrightarrow>
     stationsOk (cookingStationManager (snd (retrieveLoop items dishId (n, g))))"
proof (induction items arbitrary: n g)
  case Nil
  then show ?case by simp
next
  case (Cons x items)
  obtain stationId slotIndex item where x: "x = (stationId, slotIndex, item)"
    by (cases x) auto
  obtain r mgr' where e: "removeCookedItem (cookingStationManager g) stationId slotIndex = (r, mgr')"
    by (cases "removeCookedItem (cookingStationManager g) stationId slotIndex") auto
  from stationsOk_removeCookedItem [OF Cons.prems, of stationId slotIndex] e
  have ok': "stationsOk mgr'" by simp
  show ?case
    unfolding x using e ok'
    by (auto simp: Let_def intro!: Cons.IH split: option.splits)
qed

lemma stationsOk_retrieveLoop_result:
  "stationsOk (cookingStationManager g) \<Longrightarrow> retrieveLoop items dishId (n, g) = (m, g') \<Longrightarrow>
     stationsOk (cookingStationManager g')"
  using stationsOk_retrieveLoop [of g items dishId n] by simp

lemma stationsOk_step:
  assumes ok: "stationsOk (cookingStationManager g)"
  shows "stationsOk (cookingStationManager (step g e))"
proof (cases e)
  case (SpawnOrder a b c d)
  with ok show ?thesis by (auto split: sum.splits)
next
  case (SelectOrder a)
  with ok show ?thesis
    by (auto simp: game_selectOrder_def stationsOk_setActiveDish split: prod.splits option.splits)
next
  case (AddIngredient a b)
  with ok show ?thesis
    by (auto simp: game_addIngredient_def split: prod.splits)
next
  case (UseTool a b c)
  with ok show ?thesis
    by (auto simp: game_useTool_def Let_def stationsOk_setActiveDish
          stationsOk_handleCookingAction split: prod.splits option.splits)
next
  case (ServeDish a)
  with ok show ?thesis
    by (auto simp: game_serveDish_def Let_def stationsOk_clearCurrentDish split: option.splits)
next
  case CancelCurrentDish
  with ok show ?thesis
    by (auto simp: game_cancelCurrentDish_def Let_def stationsOk_clearCurrentDish
          split: option.splits)
next
  case RetrieveCookedItems
  with ok show ?thesis
    by (auto simp: game_retrieveCookedItems_def Let_def stationsOk_setActiveDish
          dest: stationsOk_retrieveLoop_result split: option.splits prod.splits)
next
  case ResetGame
  with ok show ?thesis by (simp add: game_resetGame_def stationsOk_clearCurrentDish)
next
  case (OrderTimer a b)
  with ok show ?thesis by simp
next
  case (SlotTimer a b)
  with ok show ?thesis by (simp add: stationsOk_slotTimerFires)
qed

lemma stationsOk_run:
  "stationsOk (cookingStationManager g) \<Longrightarrow> stationsOk (cookingStationManager (run g es))"
  unfolding run_def by (induction es arbitrary: g) (simp_all add: stationsOk_step)

lemma stationsOk_newGame: "stationsOk (cookingStationManager newGame)"
  by (simp add: newGame_eq stationsOk_def stationOk_def newCookingStation_def
        prepStationConfig_def grillStationConfig_def fryerStationConfig_def
        stoveStationConfig_def)

lemma full_station_rejects:
  assumes ok: "stationsOk mgr" and a: "activeStation mgr = Some sid" and f: "fullAt mgr sid"
  shows "handleCookingAction ds mgr act ingr now = (False, mgr)"
proof -
  from f obtain st where st: "map_of (stations mgr) sid = Some st" and full: "stationFull st"
    by (auto simp: fullAt_def split: option.splits)
  from stationsOk_lookup [OF ok st] have sok: "stationOk st" .
  then have "0 < cookingSlots st" by (simp add: stationOk_def)
  with full have "currentItems st \<noteq> []" by (auto simp: stationFull_def)
  with sok have cap: "1 < cookingSlots st" by (auto simp: stationOk_def)
  from full have "getNextAvailableSlot st = None" by (simp add: getNextAvailableSlot_None)
  with a st cap show ?thesis
    by (simp add: handleCookingAction_def split: option.splits)
qed


lemma fullAt_fields [simp]:
  "fullAt (mgr\<lparr>currentDish := d\<rparr>) = fullAt mgr"
  "fullAt (mgr\<lparr>activeStation := a\<rparr>) = fullAt mgr"
  by (simp_all add: fullAt_def fun_eq_iff)

lemma fullAt_update:
  assumes st: "map_of (stations mgr) k = Some st"
    and cap: "cookingSlots st' = cookingSlots st"
    and keys: "fst ` set (currentItems st) \<subseteq> fst ` set (currentItems st')"
    and full: "fullAt mgr sid"
  shows "fullAt (mgr\<lparr>stations := AList.update k st' (stations mgr)\<rparr>) sid"
proof (cases "sid = k")
  case True
  with full st have "stationFull st" by (simp add: fullAt_def)
  with cap keys have "stationFull st'" by (auto simp: stationFull_def)
  with True show ?thesis by (simp add: fullAt_def update_conv')
next
  case False
  with full show ?thesis by (simp add: fullAt_def update_conv')
qed

lemma fullAt_setStationActive: "fullAt mgr sid \<Longrightarrow> fullAt (setStationActive mgr k b) sid"
proof (cases "map_of (stations mgr) k")
  case None
  assume "fullAt mgr sid"
  with None show ?thesis by (simp add: setStationActive_def)
next
  case (Some st)
  assume "fullAt mgr sid"
  from fullAt_update [OF Some _ _ this, of "st\<lparr>station_isActive := b\<rparr>"]
  show ?thesis by (simp add: setStationActive_def Some)
qed

lemma fullAt_setActiveDish:
  "fullAt mgr sid \<Longrightarrow> fullAt (snd (setActiveDish ds mgr dishId stationId)) sid"
  by (simp add: setActiveDish_def Let_def fullAt_setStationActive split: option.splits)

lemma fullAt_clearCurrentDish: "fullAt mgr sid \<Longrightarrow> fullAt (clearCurrentDish mgr) sid"
  by (simp add: clearCurrentDish_def Let_def fullAt_setStationActive split: option.splits)

lemma fullAt_slotTimerFires: "fullAt mgr sid \<Longrightarrow> fullAt (slotTimerFires mgr k i) sid"
proof (cases "map_of (stations mgr) k")
  case None
  assume "fullAt mgr sid"
  with None show ?thesis by (simp add: slotTimerFires_def)
next
  case (Some st)
  assume full: "fullAt mgr sid"
  have c: "cookingSlots (cookingTimerFires st i) = cookingSlots st"
    by (simp add: cookingTimerFires_def split: option.splits)
  have k: "fst ` set (currentItems st) \<subseteq> fst ` set (currentItems (cookingTimerFires st i))"
    by (auto simp: cookingTimerFires_def dom_update split: option.splits)
  from fullAt_update [OF Some c k full]
  show ?thesis by (simp add: slotTimerFires_def Some)
qed

lemma fullAt_handleCookingAction:
  assumes full: "fullAt mgr sid"
  shows "fullAt (snd (handleCookingAction ds mgr act ingr now)) sid"
proof -
  obtain r mgr' where e: "handleCookingAction ds mgr act ingr now = (r, mgr')"
    by (cases "handleCookingAction ds mgr act ingr now") auto
  from e show ?thesis
  proof (cases rule: handleCookingAction_cases)
    case unchanged
    with full e show ?thesis by simp
  next
    case (added k st i nm ct)
    have c: "cookingSlots (snd (addItem st i nm act ingr ct now)) = cookingSlots st"
      by (simp add: addItem_def)
    have ks: "fst ` set (currentItems st)
                \<subseteq> fst ` set (currentItems (snd (addItem st i nm act ingr ct now)))"
      by (auto simp: addItem_def dom_update)
    from fullAt_update [OF added(2) c ks full]
    show ?thesis by (simp add: e added(5))
  qed
qed

lemma fullAt_step:
  assumes ne: "e \<noteq> RetrieveCookedItems" and full: "fullAt (cookingStationManager g) sid"
  shows "fullAt (cookingStationManager (step g e)) sid"
proof (cases e)
  case (SpawnOrder a b c d)
  with full show ?thesis by (auto split: sum.splits)
next
  case (SelectOrder a)
  with full show ?thesis
    by (auto simp: game_selectOrder_def fullAt_setActiveDish split: prod.splits option.splits)
next
  case (AddIngredient a b)
  with full show ?thesis
    by (auto simp: game_addIngredient_def split: prod.splits)
next
  case (UseTool a b c)
  with full show ?thesis
    by (auto simp: game_useTool_def Let_def fullAt_setActiveDish
          fullAt_handleCookingAction split: prod.splits option.splits)
next
  case (ServeDish a)
  with full show ?thesis
    by (auto simp: game_serveDish_def Let_def fullAt_clearCurrentDish split: option.splits)
next
  case CancelCurrentDish
  with full show ?thesis
    by (auto simp: game_cancelCurrentDish_def Let_def fullAt_clearCurrentDish
          split: option.splits)
next
  case RetrieveCookedItems
  with ne show ?thesis by simp
next
  case ResetGame
  with full show ?thesis by (simp add: game_resetGame_def fullAt_clearCurrentDish)
next
  case (OrderTimer a b)
  with full show ?thesis by simp
next
  case (SlotTimer a b)
  with full show ?thesis by (simp add: fullAt_slotTimerFires)
qed

text \<open>
  C9. In every state a game can reach, every station holds at most \<^verbatim>\<open>cookingSlots\<close>
  items, under distinct slot indices that are all below \<^verbatim>\<open>cookingSlots\<close>. When the
  active station is full, \<^verbatim>\<open>handleCookingAction\<close> returns \<^verbatim>\<open>false\<close> and adds no item.
  A full station stays full through every event other than the retrieval of cooked
  items, so a later submission can only succeed after a retrieval has freed a slot.
\<close>

theorem station_capacity_respected:
  "stationsOk (cookingStationManager (run newGame es))
   \<and> (stationsOk mgr \<longrightarrow>
        (\<forall>st \<in> snd ` set (stations mgr).
           distinct (map fst (currentItems st))
           \<and> length (currentItems st) \<le> cookingSlots st
           \<and> (\<forall>i \<in> fst ` set (currentItems st). i < cookingSlots st)))
   \<and> (stationsOk mgr \<and> activeStation mgr = Some sid \<and> fullAt mgr sid \<longrightarrow>
        handleCookingAction ds mgr act ingr now = (False, mgr))
   \<and> (e \<noteq> RetrieveCookedItems \<and> fullAt (cookingStationManager g) sid' \<longrightarrow>
        fullAt (cookingStationManager (step g e)) sid')"
proof (intro conjI impI)
  show "stationsOk (cookingStationManager (run newGame es))"
    by (rule stationsOk_run [OF stationsOk_newGame])
next
  assume ok: "stationsOk mgr"
  show "\<forall>st \<in> snd ` set (stations mgr).
           distinct (map fst (currentItems st))
           \<and> length (currentItems st) \<le> cookingSlots st
           \<and> (\<forall>i \<in> fst ` set (currentItems st). i < cookingSlots st)"
  proof
    fix st assume "st \<in> snd ` set (stations mgr)"
    with ok have s: "stationOk st" unfolding stationsOk_def by blast
    from stationOk_bounds [OF s] s
    show "distinct (map fst (currentItems st))
           \<and> length (currentItems st) \<le> cookingSlots st
           \<and> (\<forall>i \<in> fst ` set (currentItems st). i < cookingSlots st)"
      by (simp add: stationOk_def)
  qed
next
  assume h: "stationsOk mgr \<and> activeStation mgr = Some sid \<and> fullAt mgr sid"
  show "handleCookingAction ds mgr act ingr now = (False, mgr)"
    by (rule full_station_rejects
          [OF conjunct1 [OF h] conjunct1 [OF conjunct2 [OF h]] conjunct2 [OF conjunct2 [OF h]]])
next
  assume h: "e \<noteq> RetrieveCookedItems \<and> fullAt (cookingStationManager g) sid'"
  show "fullAt (cookingStationManager (step g e)) sid'"
    by (rule fullAt_step [OF conjunct1 [OF h] conjunct2 [OF h]])
qed


lemmas cancel_eval = game_cancelCurrentDish_def resetDish_def

lemma fillGrill_state:
  "activeStation (cookingStationManager (run newGame fillGrillRun)) = Some ''grill''
   \<and> map_option (\<lambda>st. (cookingSlots st, map fst (currentItems st)))
        (map_of (stations (cookingStationManager (run newGame fillGrillRun))) ''grill'')
       = Some (3, [0, 1, 2])"
  by (simp add: fillGrillRun_def game_eval catalog_eval order_eval station_eval cancel_eval)


text \<open>After the session that fills the grill, the grill is the active station, it holds
  items in slots 0, 1 and 2 of its 3 slots, and a fourth submission is refused.\<close>

theorem station_capacity_respected_witness:
  "stationsOk (cookingStationManager (run newGame fillGrillRun))
   \<and> activeStation (cookingStationManager (run newGame fillGrillRun)) = Some ''grill''
   \<and> map_option (\<lambda>st. (cookingSlots st, map fst (currentItems st)))
        (map_of (stations (cookingStationManager (run newGame fillGrillRun))) ''grill'')
       = Some (3, [0, 1, 2])
   \<and> fullAt (cookingStationManager (run newGame fillGrillRun)) ''grill''
   \<and> handleCookingAction newDishSystem (cookingStationManager (run newGame fillGrillRun))
        ''grill'' ''chicken_breast'' 4000
       = (False, cookingStationManager (run newGame fillGrillRun))
   \<and> SlotTimer ''grill'' 0 \<noteq> RetrieveCookedItems
   \<and> fullAt (cookingStationManager (step (run newGame fillGrillRun) (SlotTimer ''grill'' 0)))
        ''grill''"
proof -
  let ?mgr = "cookingStationManager (run newGame fillGrillRun)"
  from fillGrill_state have a: "activeStation ?mgr = Some ''grill''"
    and m: "map_option (\<lambda>st. (cookingSlots st, map fst (currentItems st)))
              (map_of (stations ?mgr) ''grill'') = Some (3, [0, 1, 2])"
    by simp_all
  from m obtain st where st: "map_of (stations ?mgr) ''grill'' = Some st"
    and cap: "cookingSlots st = 3" and keys: "map fst (currentItems st) = [0, 1, 2]"
    by auto
  have "set (map fst (currentItems st)) = {0, 1, 2}"
    unfolding keys by simp
  then have "fst ` set (currentItems st) = {0, 1, 2}"
    by simp
  then have "stationFull st"
    by (auto simp: stationFull_def cap)
  with st have full: "fullAt ?mgr ''grill''"
    by (simp add: fullAt_def)
  show ?thesis
    using station_capacity_respected
      [where es = fillGrillRun and mgr = ?mgr and sid = "''grill''" and ds = newDishSystem
         and act = "''grill''" and ingr = "''chicken_breast''" and now = 4000
         and e = "SlotTimer ''grill'' 0" and g = "run newGame fillGrillRun"
         and sid' = "''grill''"] a m full
    by simp
qed

end
